theory Spec2Isabelle
  imports
    Complex_Main
    "HOL-Library.Word"
    "HOL-Library.Char_ord"
    "HOL-Library.List_Lexorder"
    "HOL-Library.Multiset"
begin

section \<open>Basic types\<close>

text \<open>
  Go's \<open>int64\<close> is a 64-bit word read as two's complement (\<open>sint\<close>); \<open>+\<close> and
  \<open>-\<close> wrap around as \<open>sync/atomic\<close> and the language do. Go's \<open>float64\<close> is
  modelled by \<open>real\<close>: rounding, infinities and NaN are abstracted away, which
  is stated wherever a result depends on it. A \<open>string\<close> is a list of bytes and is
  compared bytewise, lexicographically, as Go compares strings.
\<close>

type_synonym int64 = "64 word"

definition float64 :: "int64 \<Rightarrow> real" where
  "float64 n = real_of_int (sint n)"

datatype panic =
  IndexOutOfRange
  | SliceBoundsOutOfRange
  | InvalidArgument
  | MakeNegativeCap
  | TypeAssertion

section \<open>Tag slices and the metric identifier\<close>

text \<open>
  A tag slice is a reference to a backing array of strings. Several holders (a caller,
  a metric, a series) may share one array, so the arrays live in an explicit store and a
  slice is the address of its array. Only whole-array slices are modelled; the nil slice
  is an address that holds the empty list.
\<close>

type_synonym slice = nat
type_synonym slices = "slice \<Rightarrow> string list"

text \<open>\<open>strings.Join(elems, sep)\<close>.\<close>

fun Join :: "string list \<Rightarrow> string \<Rightarrow> string" where
  "Join [] sep = []"
| "Join [x] sep = x"
| "Join (x # y # ys) sep = x @ sep @ Join (y # ys) sep"

text \<open>
  \<open>sort.Strings(a)\<close> sorts the array behind \<open>a\<close> in place, in increasing order.
  Equal strings are indistinguishable, so the result is the one sorted arrangement.
\<close>

definition sort_Strings :: "slice \<Rightarrow> slices \<Rightarrow> slices" where
  "sort_Strings a mem = mem(a := sort (mem a))"

text \<open>
  \<open>NewMetricID(name, tags)\<close>: sorts \<open>tags\<close> in place, then returns
  \<open>name + "|" + strings.Join(tags, ",")\<close>. The model returns the identifier and the
  store after the call.
\<close>

definition NewMetricID :: "string \<Rightarrow> slice \<Rightarrow> slices \<Rightarrow> string \<times> slices" where
  "NewMetricID nm tgs mem =
     (let mem' = sort_Strings tgs mem
      in (nm @ ''|'' @ Join (mem' tgs) '','', mem'))"

section \<open>Series\<close>

text \<open>
  A series point carries a value of Go's \<open>interface{}\<close>; the metrics of this package
  put an \<open>int64\<close> or a \<open>float64\<close> there.
\<close>

datatype point_value = IntValue int64 | FloatValue real

record Series =
  Metric :: string
  Points :: "(int64 \<times> point_value) list"
  Type :: string
  Host :: string
  Tags :: slice

definition MT_COUNTER :: string where
  "MT_COUNTER = ''counter''"

definition MT_GAUGE :: string where
  "MT_GAUGE = ''gauge''"

definition NewSeries :: "string \<Rightarrow> int64 \<Rightarrow> point_value \<Rightarrow> slice \<Rightarrow> string \<Rightarrow> Series" where
  "NewSeries nm t v tgs mt =
     \<lparr>Metric = nm, Points = [(t, v)], Type = mt, Host = [], Tags = tgs\<rparr>"

section \<open>Counter, FlashCounter and Gauge\<close>

record BaseMetric =
  name :: string
  tags :: slice

record Counter = BaseMetric +
  count :: int64

text \<open>\<open>FlashCounter\<close> embeds \<open>Counter\<close> and adds no field.\<close>

type_synonym FlashCounter = Counter

definition NewCounter :: "string \<Rightarrow> slice \<Rightarrow> Counter" where
  "NewCounter nm tgs = \<lparr>name = nm, tags = tgs, Counter.count = 0\<rparr>"

definition NewFlashCounter :: "string \<Rightarrow> slice \<Rightarrow> FlashCounter" where
  "NewFlashCounter nm tgs = NewCounter nm tgs"

definition Counter_Clear :: "Counter \<Rightarrow> Counter" where
  "Counter_Clear c = c\<lparr>Counter.count := 0\<rparr>"

definition Counter_Count :: "Counter \<Rightarrow> int64" where
  "Counter_Count c = Counter.count c"

definition Counter_Dec :: "Counter \<Rightarrow> int64 \<Rightarrow> Counter" where
  "Counter_Dec c i = c\<lparr>Counter.count := Counter.count c + (- i)\<rparr>"

definition Counter_Inc :: "Counter \<Rightarrow> int64 \<Rightarrow> Counter" where
  "Counter_Inc c i = c\<lparr>Counter.count := Counter.count c + i\<rparr>"

definition Counter_Flush :: "Counter \<Rightarrow> int64 \<Rightarrow> Series list" where
  "Counter_Flush m now =
     [NewSeries (name m @ ''.count'') now (IntValue (Counter_Count m)) (tags m) MT_COUNTER]"

text \<open>
  \<open>FlashCounter.Flush\<close> reads the count, defers \<open>Dec(count)\<close> (the argument is
  evaluated at the \<open>defer\<close> statement) and returns the series; the deferred call runs
  after the result is built. The model returns the series and the counter afterwards.
\<close>

definition FlashCounter_Flush :: "FlashCounter \<Rightarrow> int64 \<Rightarrow> Series list \<times> FlashCounter" where
  "FlashCounter_Flush m now =
     (let cnt = Counter_Count m
      in ([NewSeries (name m @ ''.count'') now (IntValue cnt) (tags m) MT_COUNTER],
          Counter_Dec m cnt))"

record Gauge = BaseMetric +
  gvalue :: int64

definition NewGauge :: "string \<Rightarrow> slice \<Rightarrow> Gauge" where
  "NewGauge nm tgs = \<lparr>name = nm, tags = tgs, gvalue = 0\<rparr>"

definition Gauge_Update :: "Gauge \<Rightarrow> int64 \<Rightarrow> Gauge" where
  "Gauge_Update g v = g\<lparr>gvalue := v\<rparr>"

definition Gauge_Value :: "Gauge \<Rightarrow> int64" where
  "Gauge_Value g = gvalue g"

definition Gauge_Flush :: "Gauge \<Rightarrow> int64 \<Rightarrow> Series list" where
  "Gauge_Flush m now =
     [NewSeries (name m @ ''.value'') now (IntValue (Gauge_Value m)) (tags m) MT_GAUGE]"

record GaugeF = BaseMetric +
  fvalue :: real

definition NewGaugeF :: "string \<Rightarrow> slice \<Rightarrow> GaugeF" where
  "NewGaugeF nm tgs = \<lparr>name = nm, tags = tgs, fvalue = 0\<rparr>"

definition GaugeF_Update :: "GaugeF \<Rightarrow> real \<Rightarrow> GaugeF" where
  "GaugeF_Update g v = g\<lparr>fvalue := v\<rparr>"

definition GaugeF_Value :: "GaugeF \<Rightarrow> real" where
  "GaugeF_Value g = fvalue g"

definition GaugeF_Flush :: "GaugeF \<Rightarrow> int64 \<Rightarrow> Series list" where
  "GaugeF_Flush m now =
     [NewSeries (name m @ ''.value'') now (FloatValue (GaugeF_Value m)) (tags m) MT_GAUGE]"

section \<open>Time\<close>

text \<open>
  A \<open>time.Time\<close> is a number of nanoseconds on one time line; a \<open>time.Duration\<close>
  is a number of nanoseconds that fits an \<open>int64\<close>, and \<open>Time.Sub\<close> saturates at
  the ends of that range. \<open>Duration.Seconds\<close> and the conversion \<open>float64(d)\<close> are
  taken without rounding.
\<close>

type_synonym Time = int
type_synonym Duration = int

definition minDuration :: Duration where
  "minDuration = - (2 ^ 63)"

definition maxDuration :: Duration where
  "maxDuration = 2 ^ 63 - 1"

definition Time_Sub :: "Time \<Rightarrow> Time \<Rightarrow> Duration" where
  "Time_Sub t u = (if t - u < minDuration then minDuration
                   else if maxDuration < t - u then maxDuration else t - u)"

definition Time_Add :: "Time \<Rightarrow> Duration \<Rightarrow> Time" where
  "Time_Add t d = t + d"

definition Time_After :: "Time \<Rightarrow> Time \<Rightarrow> bool" where
  "Time_After t u = (u < t)"

definition Duration_Seconds :: "Duration \<Rightarrow> real" where
  "Duration_Seconds d = real_of_int d / 1000000000"

definition Hour :: Duration where
  "Hour = 3600 * 1000000000"

definition rescaleThreshold :: Duration where
  "rescaleThreshold = Hour"

section \<open>Sample snapshots\<close>

record SampleSnapshot =
  count :: int64
  vals :: "int64 list"

definition NewSampleSnapshot :: "int64 \<Rightarrow> int64 list \<Rightarrow> SampleSnapshot" where
  "NewSampleSnapshot c vs = \<lparr>SampleSnapshot.count = c, SampleSnapshot.vals = vs\<rparr>"

definition MinInt64 :: int64 where
  "MinInt64 = - (2 ^ 63)"

definition MaxInt64 :: int64 where
  "MaxInt64 = 2 ^ 63 - 1"

definition SampleSnapshot_Count :: "SampleSnapshot \<Rightarrow> int64" where
  "SampleSnapshot_Count s = SampleSnapshot.count s"

definition SampleSnapshot_Max :: "SampleSnapshot \<Rightarrow> int64" where
  "SampleSnapshot_Max s =
     (if length (SampleSnapshot.vals s) = 0 then 0
      else fold (\<lambda>x mx. if sint mx < sint x then x else mx) (SampleSnapshot.vals s) MinInt64)"

definition SampleSnapshot_Min :: "SampleSnapshot \<Rightarrow> int64" where
  "SampleSnapshot_Min s =
     (if length (SampleSnapshot.vals s) = 0 then 0
      else fold (\<lambda>x mn. if sint mn > sint x then x else mn) (SampleSnapshot.vals s) MaxInt64)"

definition SampleSnapshot_Sum :: "SampleSnapshot \<Rightarrow> int64" where
  "SampleSnapshot_Sum s = fold (\<lambda>x sm. sm + x) (SampleSnapshot.vals s) 0"

definition SampleSnapshot_Mean :: "SampleSnapshot \<Rightarrow> real" where
  "SampleSnapshot_Mean s =
     (if length (SampleSnapshot.vals s) = 0 then 0
      else float64 (SampleSnapshot_Sum s) / real (length (SampleSnapshot.vals s)))"

definition SampleSnapshot_Variance :: "SampleSnapshot \<Rightarrow> real" where
  "SampleSnapshot_Variance s =
     (let n = length (SampleSnapshot.vals s)
      in if n = 0 then 0
         else let m = SampleSnapshot_Mean s
              in fold (\<lambda>x sm. sm + (float64 x - m) * (float64 x - m))
                   (SampleSnapshot.vals s) 0 / real n)"

definition SampleSnapshot_StdDev :: "SampleSnapshot \<Rightarrow> real" where
  "SampleSnapshot_StdDev s = sqrt (SampleSnapshot_Variance s)"

definition SampleSnapshot_Size :: "SampleSnapshot \<Rightarrow> int" where
  "SampleSnapshot_Size s = int (length (SampleSnapshot.vals s))"

text \<open>The conversion \<open>int(x)\<close> of a \<open>float64\<close> truncates towards zero.\<close>

definition int_of_float64 :: "real \<Rightarrow> int" where
  "int_of_float64 x = (if 0 \<le> x then \<lfloor>x\<rfloor> else \<lceil>x\<rceil>)"

text \<open>
  \<open>Percentiles\<close> sorts the snapshot's own values in place (\<open>sort.Sort\<close> with the
  signed order of \<open>int64Slice.Less\<close>; equal values are indistinguishable), so the model
  returns the scores and the snapshot afterwards. The two interpolation indices are read
  only when \<open>1 \<le> pos < size\<close>, where they lie inside the slice
  (\<open>Percentiles_indices_in_range\<close> below).
\<close>

definition SampleSnapshot_Percentiles ::
    "SampleSnapshot \<Rightarrow> real list \<Rightarrow> real list \<times> SampleSnapshot" where
  "SampleSnapshot_Percentiles s ps =
     (let n = length (SampleSnapshot.vals s)
      in if 0 < n then
           let vs = sort_key sint (SampleSnapshot.vals s)
           in (map (\<lambda>p.
                 let pos = p * real (n + 1)
                 in if pos < 1 then float64 (vs ! 0)
                    else if real n \<le> pos then float64 (vs ! (n - 1))
                    else let lower = float64 (vs ! nat (int_of_float64 pos - 1));
                             upper = float64 (vs ! nat (int_of_float64 pos))
                         in lower + (pos - real_of_int \<lfloor>pos\<rfloor>) * (upper - lower)) ps,
               s\<lparr>SampleSnapshot.vals := vs\<rparr>)
         else (replicate (length ps) 0, s))"

definition SampleSnapshot_Percentile :: "SampleSnapshot \<Rightarrow> real \<Rightarrow> real \<times> SampleSnapshot" where
  "SampleSnapshot_Percentile s p =
     (if length (SampleSnapshot.vals s) = 0 then (0, s)
      else let (scores, s') = SampleSnapshot_Percentiles s [p] in (scores ! 0, s'))"

section \<open>Uniform sample\<close>

record UniformSample =
  count :: int64
  reservoirSize :: int
  vals :: "int64 list"

text \<open>\<open>make([]T, 0, n)\<close> panics when \<open>n\<close> is negative.\<close>

definition NewUniformSample :: "int \<Rightarrow> panic + UniformSample" where
  "NewUniformSample rs =
     (if rs < 0 then Inl MakeNegativeCap
      else Inr \<lparr>UniformSample.count = 0, UniformSample.reservoirSize = rs,
                UniformSample.vals = []\<rparr>)"

definition UniformSample_Clear :: "UniformSample \<Rightarrow> panic + UniformSample" where
  "UniformSample_Clear s =
     (if UniformSample.reservoirSize s < 0 then Inl MakeNegativeCap
      else Inr (s\<lparr>UniformSample.count := 0, UniformSample.vals := []\<rparr>))"

definition UniformSample_Count :: "UniformSample \<Rightarrow> int64" where
  "UniformSample_Count s = UniformSample.count s"

definition UniformSample_Size :: "UniformSample \<Rightarrow> int" where
  "UniformSample_Size s = int (length (UniformSample.vals s))"

definition UniformSample_Values :: "UniformSample \<Rightarrow> int64 list" where
  "UniformSample_Values s = UniformSample.vals s"

text \<open>
  \<open>Update\<close>. The argument \<open>r\<close> is the number that \<open>rand.Intn(s.reservoirSize)\<close>
  returns when it is called; \<open>rand.Intn(n)\<close> panics for \<open>n \<le> 0\<close> and otherwise
  returns a number in \<open>[0, n)\<close>. Writing a slice element outside the slice panics.
\<close>

definition UniformSample_Update :: "nat \<Rightarrow> UniformSample \<Rightarrow> int64 \<Rightarrow> panic + UniformSample" where
  "UniformSample_Update r s x =
     (let s1 = s\<lparr>UniformSample.count := UniformSample.count s + 1\<rparr>
      in if int (length (UniformSample.vals s1)) < UniformSample.reservoirSize s1
         then Inr (s1\<lparr>UniformSample.vals := UniformSample.vals s1 @ [x]\<rparr>)
         else if UniformSample.reservoirSize s1 \<le> 0 then Inl InvalidArgument
         else if r < length (UniformSample.vals s1)
         then Inr (s1\<lparr>UniformSample.vals := (UniformSample.vals s1)[r := x]\<rparr>)
         else Inl IndexOutOfRange)"

definition UniformSample_Snapshot :: "UniformSample \<Rightarrow> SampleSnapshot" where
  "UniformSample_Snapshot s = NewSampleSnapshot (UniformSample_Count s) (UniformSample_Values s)"

text \<open>
  A sequence of updates on one sample, each with the number that \<open>rand.Intn\<close> returns
  for it. A panic ends the run.
\<close>

fun UniformSample_run :: "UniformSample \<Rightarrow> (nat \<times> int64) list \<Rightarrow> panic + UniformSample" where
  "UniformSample_run s [] = Inr s"
| "UniformSample_run s ((r, x) # ops) =
     (case UniformSample_Update r s x of
        Inl e \<Rightarrow> Inl e
      | Inr s' \<Rightarrow> UniformSample_run s' ops)"

text \<open>\<open>FlashSample\<close> embeds \<open>UniformSample\<close>; its \<open>Snapshot\<close> clears the sample.\<close>

type_synonym FlashSample = UniformSample

definition NewFlashSample :: "int \<Rightarrow> panic + FlashSample" where
  "NewFlashSample rs = NewUniformSample rs"

definition FlashSample_Snapshot :: "FlashSample \<Rightarrow> panic + SampleSnapshot \<times> FlashSample" where
  "FlashSample_Snapshot s =
     (let snap = UniformSample_Snapshot s
      in case UniformSample_Clear s of
           Inl e \<Rightarrow> Inl e
         | Inr s' \<Rightarrow> Inr (snap, s'))"

section \<open>The heap of the exponentially-decaying sample\<close>

text \<open>
  An \<open>expDecaySample\<close> has the fields \<open>k\<close> (priority) and \<open>v\<close> (value); they are
  called \<open>key\<close> and \<open>val\<close> here.
\<close>

record expDecaySample =
  key :: real
  val :: int64

type_synonym expDecaySampleHeap = "expDecaySample list"

definition expDecaySampleHeap_Less :: "expDecaySampleHeap \<Rightarrow> nat \<Rightarrow> nat \<Rightarrow> bool" where
  "expDecaySampleHeap_Less q i j = (key (q ! i) < key (q ! j))"

definition expDecaySampleHeap_Swap :: "expDecaySampleHeap \<Rightarrow> nat \<Rightarrow> nat \<Rightarrow> expDecaySampleHeap" where
  "expDecaySampleHeap_Swap q i j = q[i := q ! j, j := q ! i]"

text \<open>
  \<open>container/heap\<close> of the Go standard library: \<open>up\<close>, \<open>down\<close>, \<open>Push\<close> and
  \<open>Pop\<close>, over the methods above. \<open>up\<close> computes the parent as \<open>(j - 1) / 2\<close>, which
  is \<open>0\<close> for \<open>j = 0\<close> in Go (truncation) as in \<open>nat\<close>.
\<close>

function heap_up :: "expDecaySampleHeap \<Rightarrow> nat \<Rightarrow> expDecaySampleHeap" where
  "heap_up q j =
     (let i = (j - 1) div 2
      in if i = j \<or> \<not> expDecaySampleHeap_Less q j i then q
         else heap_up (expDecaySampleHeap_Swap q i j) i)"
  by pat_completeness auto
termination
  by (relation "measure (\<lambda>(q, j). j)") auto

function heap_down :: "expDecaySampleHeap \<Rightarrow> nat \<Rightarrow> nat \<Rightarrow> expDecaySampleHeap" where
  "heap_down q i n =
     (let j1 = 2 * i + 1
      in if n \<le> j1 then q
         else let j = (if j1 + 1 < n \<and> expDecaySampleHeap_Less q (j1 + 1) j1 then j1 + 1 else j1)
              in if \<not> expDecaySampleHeap_Less q j i then q
                 else heap_down (expDecaySampleHeap_Swap q i j) j n)"
  by pat_completeness auto
termination
  by (relation "measure (\<lambda>(q, i, n). n - i)") (auto split: if_splits)

text \<open>
  \<open>expDecaySampleHeap.Push\<close> reslices to \<open>q[0 : n+1]\<close>, which panics beyond the
  capacity of the slice, and \<open>heap.Push\<close> then sifts the new element up.
\<close>

definition heap_Push :: "int \<Rightarrow> expDecaySampleHeap \<Rightarrow> expDecaySample \<Rightarrow> panic + expDecaySampleHeap" where
  "heap_Push cap q x =
     (if cap < int (length q) + 1 then Inl SliceBoundsOutOfRange
      else Inr (heap_up (q @ [x]) (length (q @ [x]) - 1)))"

text \<open>
  \<open>heap.Pop\<close> swaps the root with the last element, sifts the new root down within
  the first \<open>n\<close> elements and removes the last element, which it returns. On an empty
  heap \<open>Swap(0, -1)\<close> panics.
\<close>

definition heap_Pop :: "expDecaySampleHeap \<Rightarrow> panic + expDecaySample \<times> expDecaySampleHeap" where
  "heap_Pop q =
     (if length q = 0 then Inl IndexOutOfRange
      else let n = length q - 1;
               q1 = heap_down (expDecaySampleHeap_Swap q 0 n) 0 n
           in Inr (q1 ! n, take n q1))"

section \<open>Exponentially-decaying sample\<close>

record ExpDecaySample =
  alpha :: real
  count :: int64
  reservoirSize :: int
  t0 :: Time
  t1 :: Time
  vals :: expDecaySampleHeap

text \<open>
  \<open>NewExpDecaySample\<close> reads the clock twice: \<open>now1\<close> becomes \<open>t0\<close> and
  \<open>t1\<close> is \<open>now2\<close> plus the rescale threshold.
\<close>

definition NewExpDecaySample :: "int \<Rightarrow> real \<Rightarrow> Time \<Rightarrow> Time \<Rightarrow> panic + ExpDecaySample" where
  "NewExpDecaySample rs a now1 now2 =
     (if rs < 0 then Inl MakeNegativeCap
      else Inr \<lparr>ExpDecaySample.alpha = a, ExpDecaySample.count = 0,
                ExpDecaySample.reservoirSize = rs, t0 = now1,
                t1 = Time_Add now2 rescaleThreshold, ExpDecaySample.vals = []\<rparr>)"

definition ExpDecaySample_Clear :: "Time \<Rightarrow> ExpDecaySample \<Rightarrow> panic + ExpDecaySample" where
  "ExpDecaySample_Clear now s =
     (if ExpDecaySample.reservoirSize s < 0 then Inl MakeNegativeCap
      else Inr (s\<lparr>ExpDecaySample.count := 0, t0 := now,
                   t1 := Time_Add now rescaleThreshold, ExpDecaySample.vals := []\<rparr>))"

definition ExpDecaySample_Count :: "ExpDecaySample \<Rightarrow> int64" where
  "ExpDecaySample_Count s = ExpDecaySample.count s"

definition ExpDecaySample_Size :: "ExpDecaySample \<Rightarrow> int" where
  "ExpDecaySample_Size s = int (length (ExpDecaySample.vals s))"

definition ExpDecaySample_Values :: "ExpDecaySample \<Rightarrow> int64 list" where
  "ExpDecaySample_Values s = map val (ExpDecaySample.vals s)"

definition ExpDecaySample_Snapshot :: "ExpDecaySample \<Rightarrow> SampleSnapshot" where
  "ExpDecaySample_Snapshot s =
     NewSampleSnapshot (ExpDecaySample_Count s) (ExpDecaySample_Values s)"

text \<open>
  The rescaling loop of \<open>update\<close>: every element of the old heap, in slice order, has
  its key multiplied by \<open>factor\<close> and is pushed on the new heap.
\<close>

fun rescale_push ::
    "int \<Rightarrow> real \<Rightarrow> expDecaySample list \<Rightarrow> expDecaySampleHeap \<Rightarrow> panic + expDecaySampleHeap" where
  "rescale_push cap factor [] q = Inr q"
| "rescale_push cap factor (x # xs) q =
     (case heap_Push cap q (x\<lparr>key := key x * factor\<rparr>) of
        Inl e \<Rightarrow> Inl e
      | Inr q' \<Rightarrow> rescale_push cap factor xs q')"

text \<open>
  \<open>update(t, v)\<close>. The argument \<open>u\<close> is the number that \<open>rand.Float64()\<close> returns,
  in \<open>[0, 1)\<close>. The capacity of the heap slice is \<open>reservoirSize\<close> (both \<open>make\<close>
  calls give it that capacity). The key divides by \<open>u\<close>: for \<open>u = 0\<close> Go gives
  \<open>+Inf\<close> where HOL gives \<open>0\<close>, so statements about keys assume \<open>0 < u\<close>.
  The rescaling factor is \<open>math.Exp(-s.alpha * float64(s.t0.Sub(t0)))\<close>: the
  \<open>Duration\<close> is converted as it is, a number of nanoseconds.
\<close>

definition ExpDecaySample_update ::
    "Time \<Rightarrow> real \<Rightarrow> int64 \<Rightarrow> ExpDecaySample \<Rightarrow> panic + ExpDecaySample" where
  "ExpDecaySample_update t u x s =
     (let s1 = s\<lparr>ExpDecaySample.count := ExpDecaySample.count s + 1\<rparr>;
          rs = ExpDecaySample.reservoirSize s1;
          popped = (if int (length (ExpDecaySample.vals s1)) = rs
                    then (case heap_Pop (ExpDecaySample.vals s1) of
                            Inl e \<Rightarrow> Inl e
                          | Inr (m, q) \<Rightarrow> Inr q)
                    else Inr (ExpDecaySample.vals s1))
      in case popped of
           Inl e \<Rightarrow> Inl e
         | Inr q1 \<Rightarrow>
            (case heap_Push rs q1
                    \<lparr>key = exp (Duration_Seconds (Time_Sub t (t0 s1)) * ExpDecaySample.alpha s1) / u,
                     val = x\<rparr> of
               Inl e \<Rightarrow> Inl e
             | Inr q2 \<Rightarrow>
                if Time_After t (t1 s1) then
                  (let old_t0 = t0 s1;
                       s2 = s1\<lparr>t0 := t, t1 := Time_Add t rescaleThreshold\<rparr>;
                       factor = exp (- ExpDecaySample.alpha s2 * real_of_int (Time_Sub (t0 s2) old_t0))
                   in case rescale_push rs factor q2 [] of
                        Inl e \<Rightarrow> Inl e
                      | Inr q3 \<Rightarrow> Inr (s2\<lparr>ExpDecaySample.vals := q3\<rparr>))
                else Inr (s1\<lparr>ExpDecaySample.vals := q2\<rparr>)))"

text \<open>\<open>Update(v)\<close> is \<open>update(time.Now(), v)\<close>.\<close>

definition ExpDecaySample_Update ::
    "Time \<Rightarrow> real \<Rightarrow> ExpDecaySample \<Rightarrow> int64 \<Rightarrow> panic + ExpDecaySample" where
  "ExpDecaySample_Update now u s x = ExpDecaySample_update now u x s"

text \<open>
  A sequence of operations on one sample; each carries what it reads from the clock and
  from the random source. A panic ends the run.
\<close>

datatype ExpDecaySample_op = OpUpdate Time real int64 | OpClear Time

fun ExpDecaySample_run :: "ExpDecaySample \<Rightarrow> ExpDecaySample_op list \<Rightarrow> panic + ExpDecaySample" where
  "ExpDecaySample_run s [] = Inr s"
| "ExpDecaySample_run s (OpUpdate now u x # ops) =
     (case ExpDecaySample_Update now u s x of
        Inl e \<Rightarrow> Inl e
      | Inr s' \<Rightarrow> ExpDecaySample_run s' ops)"
| "ExpDecaySample_run s (OpClear now # ops) =
     (case ExpDecaySample_Clear now s of
        Inl e \<Rightarrow> Inl e
      | Inr s' \<Rightarrow> ExpDecaySample_run s' ops)"

section \<open>The Sample interface\<close>

text \<open>The implementations of \<open>Sample\<close> in the package, by dynamic type.\<close>

datatype Sample =
  PtrExpDecaySample ExpDecaySample
  | PtrUniformSample UniformSample
  | PtrFlashSample FlashSample

definition NewDefaultSample :: "Time \<Rightarrow> Time \<Rightarrow> panic + Sample" where
  "NewDefaultSample now1 now2 =
     (case NewExpDecaySample 1028 (15 / 1000) now1 now2 of
        Inl e \<Rightarrow> Inl e
      | Inr s \<Rightarrow> Inr (PtrExpDecaySample s))"

fun Sample_Snapshot :: "Sample \<Rightarrow> panic + SampleSnapshot \<times> Sample" where
  "Sample_Snapshot (PtrExpDecaySample s) = Inr (ExpDecaySample_Snapshot s, PtrExpDecaySample s)"
| "Sample_Snapshot (PtrUniformSample s) = Inr (UniformSample_Snapshot s, PtrUniformSample s)"
| "Sample_Snapshot (PtrFlashSample s) =
     (case FlashSample_Snapshot s of
        Inl e \<Rightarrow> Inl e
      | Inr (snap, s') \<Rightarrow> Inr (snap, PtrFlashSample s'))"

text \<open>
  \<open>Update\<close> through the interface; \<open>now\<close>, \<open>u\<close> and \<open>r\<close> are what the
  implementation reads from the clock, \<open>rand.Float64\<close> and \<open>rand.Intn\<close>.
\<close>

fun Sample_Update :: "Time \<Rightarrow> real \<Rightarrow> nat \<Rightarrow> Sample \<Rightarrow> int64 \<Rightarrow> panic + Sample" where
  "Sample_Update now u r (PtrExpDecaySample s) x =
     (case ExpDecaySample_Update now u s x of
        Inl e \<Rightarrow> Inl e
      | Inr s' \<Rightarrow> Inr (PtrExpDecaySample s'))"
| "Sample_Update now u r (PtrUniformSample s) x =
     (case UniformSample_Update r s x of
        Inl e \<Rightarrow> Inl e
      | Inr s' \<Rightarrow> Inr (PtrUniformSample s'))"
| "Sample_Update now u r (PtrFlashSample s) x =
     (case UniformSample_Update r s x of
        Inl e \<Rightarrow> Inl e
      | Inr s' \<Rightarrow> Inr (PtrFlashSample s'))"

section \<open>EWMA\<close>

record EWMA =
  uncounted :: int64
  alpha :: real
  rate :: real
  init :: bool

definition NewEWMA :: "real \<Rightarrow> EWMA" where
  "NewEWMA a = \<lparr>uncounted = 0, EWMA.alpha = a, rate = 0, init = False\<rparr>"

definition NewEWMA1 :: EWMA where
  "NewEWMA1 = NewEWMA (1 - exp (- 5 / 60 / 1))"

definition NewEWMA5 :: EWMA where
  "NewEWMA5 = NewEWMA (1 - exp (- 5 / 60 / 5))"

definition NewEWMA15 :: EWMA where
  "NewEWMA15 = NewEWMA (1 - exp (- 5 / 60 / 15))"

definition EWMA_Rate :: "EWMA \<Rightarrow> real" where
  "EWMA_Rate a = rate a * 1000000000"

text \<open>
  \<open>Tick\<close> loads the uncounted events, subtracts what it loaded, and blends the
  instantaneous rate (events per nanosecond over five seconds) into the rate.
\<close>

definition EWMA_Tick :: "EWMA \<Rightarrow> EWMA" where
  "EWMA_Tick a =
     (let cnt = uncounted a;
          a1 = a\<lparr>uncounted := uncounted a + (- cnt)\<rparr>;
          instantRate = float64 cnt / 5000000000
      in if init a1 then a1\<lparr>rate := rate a1 + EWMA.alpha a1 * (instantRate - rate a1)\<rparr>
         else a1\<lparr>init := True, rate := instantRate\<rparr>)"

definition EWMA_Update :: "EWMA \<Rightarrow> int64 \<Rightarrow> EWMA" where
  "EWMA_Update a n = a\<lparr>uncounted := uncounted a + n\<rparr>"

section \<open>Meter, Histogram and Timer\<close>

record Meter = BaseMetric +
  count :: int64
  startTime :: Time
  rate1 :: real
  rate5 :: real
  rate15 :: real
  rateMean :: real
  a1 :: EWMA
  a5 :: EWMA
  a15 :: EWMA

definition Meter_Count :: "'a Meter_scheme \<Rightarrow> int64" where
  "Meter_Count m = Meter.count m"

definition Meter_Mark :: "'a Meter_scheme \<Rightarrow> int64 \<Rightarrow> 'a Meter_scheme" where
  "Meter_Mark m n =
     m\<lparr>Meter.count := Meter.count m + n, a1 := EWMA_Update (a1 m) n,
       a5 := EWMA_Update (a5 m) n, a15 := EWMA_Update (a15 m) n\<rparr>"

definition Meter_Rate1 :: "'a Meter_scheme \<Rightarrow> real" where
  "Meter_Rate1 m = rate1 m"

definition Meter_Rate5 :: "'a Meter_scheme \<Rightarrow> real" where
  "Meter_Rate5 m = rate5 m"

definition Meter_Rate15 :: "'a Meter_scheme \<Rightarrow> real" where
  "Meter_Rate15 m = rate15 m"

definition Meter_RateMean :: "'a Meter_scheme \<Rightarrow> real" where
  "Meter_RateMean m = rateMean m"

text \<open>\<open>tick\<close>; \<open>now\<close> is the clock read by \<open>time.Since\<close>.\<close>

definition Meter_tick :: "Time \<Rightarrow> 'a Meter_scheme \<Rightarrow> 'a Meter_scheme" where
  "Meter_tick now m =
     (let m1 = m\<lparr>a1 := EWMA_Tick (a1 m), a5 := EWMA_Tick (a5 m), a15 := EWMA_Tick (a15 m)\<rparr>
      in m1\<lparr>rate1 := EWMA_Rate (a1 m1), rate5 := EWMA_Rate (a5 m1),
             rate15 := EWMA_Rate (a15 m1),
             rateMean := float64 (Meter_Count m1) / Duration_Seconds (Time_Sub now (startTime m1))\<rparr>)"

definition Meter_Flush :: "'a Meter_scheme \<Rightarrow> int64 \<Rightarrow> Series list" where
  "Meter_Flush m now =
     [NewSeries (name m @ ''.rate'') now (FloatValue (Meter_RateMean m)) (tags m) MT_GAUGE,
      NewSeries (name m @ ''.rate1'') now (FloatValue (Meter_Rate1 m)) (tags m) MT_GAUGE,
      NewSeries (name m @ ''.rate5'') now (FloatValue (Meter_Rate5 m)) (tags m) MT_GAUGE,
      NewSeries (name m @ ''.rate15'') now (FloatValue (Meter_Rate15 m)) (tags m) MT_GAUGE]"

record Histogram = BaseMetric +
  sample :: Sample

definition NewCustomHistogram :: "string \<Rightarrow> Sample \<Rightarrow> slice \<Rightarrow> Histogram" where
  "NewCustomHistogram nm smp tgs = \<lparr>name = nm, tags = tgs, Histogram.sample = smp\<rparr>"

definition Histogram_Snapshot :: "Histogram \<Rightarrow> panic + SampleSnapshot \<times> Histogram" where
  "Histogram_Snapshot h =
     (case Sample_Snapshot (Histogram.sample h) of
        Inl e \<Rightarrow> Inl e
      | Inr (snap, smp) \<Rightarrow> Inr (snap, h\<lparr>Histogram.sample := smp\<rparr>))"

definition Histogram_Flush :: "Histogram \<Rightarrow> int64 \<Rightarrow> panic + Series list \<times> Histogram" where
  "Histogram_Flush h now =
     (case Histogram_Snapshot h of
        Inl e \<Rightarrow> Inl e
      | Inr (snap0, h') \<Rightarrow>
          (let (p, snap) = SampleSnapshot_Percentiles snap0 [5 / 10, 75 / 100, 95 / 100, 99 / 100]
           in Inr
             ([NewSeries (name h @ ''.count'') now (IntValue (SampleSnapshot_Count snap)) (tags h) MT_COUNTER,
               NewSeries (name h @ ''.min'') now (IntValue (SampleSnapshot_Min snap)) (tags h) MT_GAUGE,
               NewSeries (name h @ ''.max'') now (IntValue (SampleSnapshot_Max snap)) (tags h) MT_GAUGE,
               NewSeries (name h @ ''.mean'') now (FloatValue (SampleSnapshot_Mean snap)) (tags h) MT_GAUGE,
               NewSeries (name h @ ''.stddev'') now (FloatValue (SampleSnapshot_StdDev snap)) (tags h) MT_GAUGE,
               NewSeries (name h @ ''.median'') now (FloatValue (p ! 0)) (tags h) MT_GAUGE,
               NewSeries (name h @ ''.percentile.75'') now (FloatValue (p ! 1)) (tags h) MT_GAUGE,
               NewSeries (name h @ ''.percentile.95'') now (FloatValue (p ! 2)) (tags h) MT_GAUGE,
               NewSeries (name h @ ''.percentile.99'') now (FloatValue (p ! 3)) (tags h) MT_GAUGE],
              h')))"

record Timer = Meter +
  unit :: real
  sample :: Sample

definition Timer_Snapshot :: "Timer \<Rightarrow> panic + SampleSnapshot \<times> Timer" where
  "Timer_Snapshot t =
     (case Sample_Snapshot (Timer.sample t) of
        Inl e \<Rightarrow> Inl e
      | Inr (snap, smp) \<Rightarrow> Inr (snap, t\<lparr>Timer.sample := smp\<rparr>))"

text \<open>\<open>Update(d)\<close>: the duration goes to the sample, and the meter is marked once.\<close>

definition Timer_Update :: "Time \<Rightarrow> real \<Rightarrow> nat \<Rightarrow> Timer \<Rightarrow> Duration \<Rightarrow> panic + Timer" where
  "Timer_Update now u r t d =
     (case Sample_Update now u r (Timer.sample t) (word_of_int d) of
        Inl e \<Rightarrow> Inl e
      | Inr smp \<Rightarrow> Inr (Meter_Mark (t\<lparr>Timer.sample := smp\<rparr>) 1))"

definition Timer_norm :: "Timer \<Rightarrow> int64 \<Rightarrow> real" where
  "Timer_norm t n = float64 n / unit t"

text \<open>
  \<open>Flush\<close>. The snapshot may clear the sample (\<open>FlashSample\<close>), so the timer
  afterwards is returned with the series. The statistics are read from the snapshot
  after \<open>Percentiles\<close> has sorted it.
\<close>

definition Timer_Flush :: "Timer \<Rightarrow> int64 \<Rightarrow> panic + Series list \<times> Timer" where
  "Timer_Flush t now =
     (case Timer_Snapshot t of
        Inl e \<Rightarrow> Inl e
      | Inr (snap0, t') \<Rightarrow>
          (let (p, snap) = SampleSnapshot_Percentiles snap0 [5 / 10, 75 / 100, 95 / 100, 99 / 100]
           in Inr
             ([NewSeries (name t @ ''.rate'') now (FloatValue (Meter_RateMean t)) (tags t) MT_GAUGE,
               NewSeries (name t @ ''.rate1'') now (FloatValue (Meter_Rate1 t)) (tags t) MT_GAUGE,
               NewSeries (name t @ ''.rate5'') now (FloatValue (Meter_Rate5 t)) (tags t) MT_GAUGE,
               NewSeries (name t @ ''.rate15'') now (FloatValue (Meter_Rate15 t)) (tags t) MT_GAUGE,
               NewSeries (name t @ ''.count'') now (IntValue (SampleSnapshot_Count snap)) (tags t) MT_COUNTER,
               NewSeries (name t @ ''.min'') now (FloatValue (Timer_norm t (SampleSnapshot_Min snap))) (tags t) MT_GAUGE,
               NewSeries (name t @ ''.max'') now (FloatValue (Timer_norm t (SampleSnapshot_Max snap))) (tags t) MT_GAUGE,
               NewSeries (name t @ ''.mean'') now (FloatValue (SampleSnapshot_Mean snap / unit t)) (tags t) MT_GAUGE,
               NewSeries (name t @ ''.stddev'') now (FloatValue (SampleSnapshot_StdDev snap / unit t)) (tags t) MT_GAUGE,
               NewSeries (name t @ ''.median'') now (FloatValue (p ! 0 / unit t)) (tags t) MT_GAUGE,
               NewSeries (name t @ ''.percentile.75'') now (FloatValue (p ! 1 / unit t)) (tags t) MT_GAUGE,
               NewSeries (name t @ ''.percentile.95'') now (FloatValue (p ! 2 / unit t)) (tags t) MT_GAUGE,
               NewSeries (name t @ ''.percentile.99'') now (FloatValue (p ! 3 / unit t)) (tags t) MT_GAUGE],
              t')))"

section \<open>The Metric interface and the reporter's registry\<close>

text \<open>
  A \<open>Metric\<close> value by its dynamic type. The \<open>name\<close> and \<open>tags\<close> fields of a
  \<open>BaseMetric\<close> are set at construction and never assigned again; the array behind
  \<open>tags\<close> is shared and lives in the store of tag slices.
\<close>

datatype Metric =
  PtrCounter Counter
  | PtrFlashCounter FlashCounter
  | PtrGauge Gauge
  | PtrGaugeF GaugeF
  | PtrHistogram Histogram
  | PtrMeter Meter
  | PtrTimer Timer

fun Metric_Name :: "Metric \<Rightarrow> string" where
  "Metric_Name (PtrCounter m) = name m"
| "Metric_Name (PtrFlashCounter m) = name m"
| "Metric_Name (PtrGauge m) = name m"
| "Metric_Name (PtrGaugeF m) = name m"
| "Metric_Name (PtrHistogram m) = name m"
| "Metric_Name (PtrMeter m) = name m"
| "Metric_Name (PtrTimer m) = name m"

fun Metric_Tags :: "Metric \<Rightarrow> slice" where
  "Metric_Tags (PtrCounter m) = tags m"
| "Metric_Tags (PtrFlashCounter m) = tags m"
| "Metric_Tags (PtrGauge m) = tags m"
| "Metric_Tags (PtrGaugeF m) = tags m"
| "Metric_Tags (PtrHistogram m) = tags m"
| "Metric_Tags (PtrMeter m) = tags m"
| "Metric_Tags (PtrTimer m) = tags m"

record Client =
  Host :: string
  ApiKey :: string

record MetricReporter =
  client :: Client
  registry :: "string \<rightharpoonup> Metric"
  tags :: slice

text \<open>
  The state that the registry operations act on: the reporter and the store of tag
  slices. Every operation returns the state afterwards.
\<close>

record state =
  rep :: MetricReporter
  mem :: slices

definition NewReporter :: "Client \<Rightarrow> slice \<Rightarrow> MetricReporter" where
  "NewReporter c t = \<lparr>client = c, registry = Map.empty, MetricReporter.tags = t\<rparr>"

definition Register :: "Metric \<Rightarrow> state \<Rightarrow> state" where
  "Register m st =
     (let (mid, mem') = NewMetricID (Metric_Name m) (Metric_Tags m) (mem st)
      in st\<lparr>rep := (rep st)\<lparr>registry := (registry (rep st))(mid \<mapsto> m)\<rparr>, mem := mem'\<rparr>)"

text \<open>\<open>GetByID\<close> returns \<open>nil\<close> (\<open>None\<close>) when the identifier is absent.\<close>

definition GetByID :: "string \<Rightarrow> state \<Rightarrow> Metric option \<times> state" where
  "GetByID mid st =
     (case registry (rep st) mid of
        Some v \<Rightarrow> (Some v, st)
      | None \<Rightarrow> (None, st))"

definition Get :: "string \<Rightarrow> slice \<Rightarrow> state \<Rightarrow> Metric option \<times> state" where
  "Get nm tgs st =
     (let (mid, mem') = NewMetricID nm tgs (mem st)
      in GetByID mid (st\<lparr>mem := mem'\<rparr>))"

text \<open>
  \<open>Fetch\<close>. The fallback is a closure \<open>func() Metric\<close>; it runs while the registry
  lock is held, so it cannot use the registry, and it is modelled as a function on the
  store that returns the metric and the store afterwards.
\<close>

definition Fetch :: "(slices \<Rightarrow> Metric \<times> slices) \<Rightarrow> string \<Rightarrow> slice \<Rightarrow> state \<Rightarrow> Metric \<times> state" where
  "Fetch fallback nm tgs st =
     (let (mid, mem1) = NewMetricID nm tgs (mem st)
      in case registry (rep st) mid of
           Some v \<Rightarrow> (v, st\<lparr>mem := mem1\<rparr>)
         | None \<Rightarrow>
            (let (v, mem2) = fallback mem1
             in (v, st\<lparr>rep := (rep st)\<lparr>registry := (registry (rep st))(mid \<mapsto> v)\<rparr>,
                       mem := mem2\<rparr>)))"

text \<open>
  The helpers of the counter and gauge kinds. A \<open>Fetch\<close> helper asserts the dynamic
  type of what \<open>Fetch\<close> returns, and panics on another kind.
\<close>

definition FetchCounter :: "string \<Rightarrow> slice \<Rightarrow> state \<Rightarrow> panic + Counter \<times> state" where
  "FetchCounter nm tgs st =
     (case Fetch (\<lambda>h. (PtrCounter (NewCounter nm tgs), h)) nm tgs st of
        (PtrCounter c, st') \<Rightarrow> Inr (c, st')
      | _ \<Rightarrow> Inl TypeAssertion)"

definition RegisterCounter :: "string \<Rightarrow> slice \<Rightarrow> state \<Rightarrow> Counter \<times> state" where
  "RegisterCounter nm tgs st =
     (let m = NewCounter nm tgs in (m, Register (PtrCounter m) st))"

definition FetchFlashCounter :: "string \<Rightarrow> slice \<Rightarrow> state \<Rightarrow> panic + FlashCounter \<times> state" where
  "FetchFlashCounter nm tgs st =
     (case Fetch (\<lambda>h. (PtrFlashCounter (NewFlashCounter nm tgs), h)) nm tgs st of
        (PtrFlashCounter c, st') \<Rightarrow> Inr (c, st')
      | _ \<Rightarrow> Inl TypeAssertion)"

definition RegisterFlashCounter :: "string \<Rightarrow> slice \<Rightarrow> state \<Rightarrow> FlashCounter \<times> state" where
  "RegisterFlashCounter nm tgs st =
     (let m = NewFlashCounter nm tgs in (m, Register (PtrFlashCounter m) st))"

definition FetchGauge :: "string \<Rightarrow> slice \<Rightarrow> state \<Rightarrow> panic + Gauge \<times> state" where
  "FetchGauge nm tgs st =
     (case Fetch (\<lambda>h. (PtrGauge (NewGauge nm tgs), h)) nm tgs st of
        (PtrGauge g, st') \<Rightarrow> Inr (g, st')
      | _ \<Rightarrow> Inl TypeAssertion)"

definition RegisterGauge :: "string \<Rightarrow> slice \<Rightarrow> state \<Rightarrow> Gauge \<times> state" where
  "RegisterGauge nm tgs st =
     (let m = NewGauge nm tgs in (m, Register (PtrGauge m) st))"

definition FetchGaugeF :: "string \<Rightarrow> slice \<Rightarrow> state \<Rightarrow> panic + GaugeF \<times> state" where
  "FetchGaugeF nm tgs st =
     (case Fetch (\<lambda>h. (PtrGaugeF (NewGaugeF nm tgs), h)) nm tgs st of
        (PtrGaugeF g, st') \<Rightarrow> Inr (g, st')
      | _ \<Rightarrow> Inl TypeAssertion)"

definition RegisterGaugeF :: "string \<Rightarrow> slice \<Rightarrow> state \<Rightarrow> GaugeF \<times> state" where
  "RegisterGaugeF nm tgs st =
     (let m = NewGaugeF nm tgs in (m, Register (PtrGaugeF m) st))"

section \<open>The percentile rule in the specification's words\<close>

text \<open>
  The specification's rule, written independently of the code for comparison with
  \<open>SampleSnapshot_Percentiles\<close>: sort the retained values ascending; with
  \<open>pos = p * (n + 1)\<close>, return the minimum when \<open>pos < 1\<close>, the maximum when
  \<open>pos \<ge> n\<close>, and otherwise interpolate linearly between the values at the
  positions \<open>floor pos\<close> and \<open>ceiling pos\<close> (counted from one) by the fractional
  part of \<open>pos\<close>.
\<close>

definition spec_percentile :: "int64 list \<Rightarrow> real \<Rightarrow> real" where
  "spec_percentile xs p =
     (let ys = sort (map sint xs);
          n = length xs;
          pos = p * real (n + 1)
      in if pos < 1 then real_of_int (Min (set ys))
         else if real n \<le> pos then real_of_int (Max (set ys))
         else let lower = real_of_int (ys ! (nat \<lfloor>pos\<rfloor> - 1));
                  upper = real_of_int (ys ! (nat \<lceil>pos\<rceil> - 1))
              in lower + frac pos * (upper - lower))"

section \<open>Properties\<close>

subsection \<open>The metric identifier\<close>

lemma sort_eq_of_mset_eq:
  fixes xs ys :: "string list"
  assumes "mset xs = mset ys"
  shows "sort xs = sort ys"
proof -
  have "mset (sort xs) = mset (sort ys)"
    using assms by simp
  moreover have "sorted (sort xs)" and "sorted (sort ys)"
    by simp_all
  ultimately show ?thesis
    by (metis properties_for_sort)
qed

text \<open>
  Claim C9. \<open>NewMetricID\<close> does not depend on the order of the tags: for one name
  and two tag slices whose contents are permutations of each other, in any two stores,
  the identifiers are equal, and the identifier is the name, a bar, and the tags sorted
  lexicographically and joined by commas. In particular the tags \<open>["b","a"]\<close> and
  \<open>["a","b"]\<close> under the name \<open>"x"\<close> give the same identifier.
\<close>

theorem NewMetricID_permutation_invariant:
  "mset (mem1 a) = mset (mem2 b) \<Longrightarrow>
     fst (NewMetricID nm a mem1) = fst (NewMetricID nm b mem2) \<and>
     fst (NewMetricID nm a mem1) = nm @ ''|'' @ Join (sort (mem1 a)) '',''"
proof -
  assume "mset (mem1 a) = mset (mem2 b)"
  then have "sort (mem1 a) = sort (mem2 b)"
    by (rule sort_eq_of_mset_eq)
  then show ?thesis
    by (simp add: NewMetricID_def sort_Strings_def Let_def)
qed

theorem NewMetricID_permutation_invariant_witness:
  "mset [''b'', ''a''] = mset [''a'', ''b''] \<and>
   fst (NewMetricID ''x'' 0 ((\<lambda>_. [])(0 := [''b'', ''a'']))) =
     fst (NewMetricID ''x'' 0 ((\<lambda>_. [])(0 := [''a'', ''b'']))) \<and>
   fst (NewMetricID ''x'' 0 ((\<lambda>_. [])(0 := [''b'', ''a'']))) = ''x|a,b''"
  using NewMetricID_permutation_invariant
    [where ?mem1.0 = "(\<lambda>_. [])(0 := [''b'', ''a''])" and a = 0
       and ?mem2.0 = "(\<lambda>_. [])(0 := [''a'', ''b''])" and b = 0 and nm = "''x''"]
  by (simp add: NewMetricID_def sort_Strings_def)

subsection \<open>The registry\<close>

lemma NewMetricID_store: "snd (NewMetricID nm a h) = h(a := sort (h a))"
  by (simp add: NewMetricID_def sort_Strings_def Let_def)

lemma NewMetricID_id: "fst (NewMetricID nm a h) = nm @ ''|'' @ Join (sort (h a)) '',''"
  by (simp add: NewMetricID_def sort_Strings_def Let_def)

lemma Register_mem:
  "mem (Register m st) = (mem st)(Metric_Tags m := sort (mem st (Metric_Tags m)))"
  by (simp add: Register_def split_beta NewMetricID_store)

lemma Register_registry:
  "registry (rep (Register m st)) =
     (registry (rep st))(fst (NewMetricID (Metric_Name m) (Metric_Tags m) (mem st)) \<mapsto> m)"
  by (simp add: Register_def split_beta)

lemma GetByID_eq: "GetByID i st = (registry (rep st) i, st)"
  by (simp add: GetByID_def split: option.splits)

lemma Get_eq:
  "Get nm a st = (registry (rep st) (fst (NewMetricID nm a (mem st))),
                  st\<lparr>mem := (mem st)(a := sort (mem st a))\<rparr>)"
  by (simp add: Get_def split_beta GetByID_eq NewMetricID_store)

lemma Fetch_present:
  "registry (rep st) (fst (NewMetricID nm a (mem st))) = Some v \<Longrightarrow>
     Fetch fb nm a st = (v, st\<lparr>mem := (mem st)(a := sort (mem st a))\<rparr>)"
  by (simp add: Fetch_def split_beta NewMetricID_store)

lemma Fetch_absent:
  "registry (rep st) (fst (NewMetricID nm a (mem st))) = None \<Longrightarrow>
     Fetch fb nm a st =
       (fst (fb ((mem st)(a := sort (mem st a)))),
        st\<lparr>rep := (rep st)\<lparr>registry := (registry (rep st))
                 (fst (NewMetricID nm a (mem st)) \<mapsto> fst (fb ((mem st)(a := sort (mem st a)))))\<rparr>,
            mem := snd (fb ((mem st)(a := sort (mem st a))))\<rparr>)"
  by (simp add: Fetch_def split_beta NewMetricID_store)

lemma Fetch_pure_mem:
  "mem (snd (Fetch (\<lambda>h. (v, h)) nm a st)) = (mem st)(a := sort (mem st a))"
  by (simp add: Fetch_def split_beta NewMetricID_store split: option.splits)

text \<open>
  Claim C6. \<open>Fetch\<close> derives the identifier from the name and the tags. When the
  registry holds a metric under it, \<open>Fetch\<close> returns that metric and the state is
  the one left by deriving the identifier: the fallback has not run and the registry is
  as before. When the identifier is absent, the fallback runs once on the store left by
  deriving the identifier, and its result is stored under the identifier and returned.
  \<open>Register\<close> stores the metric under its identifier, over whatever was there.
  \<open>GetByID\<close> returns the registry's entry (\<open>None\<close> for nil) and leaves the state
  as it is; \<open>Get\<close> returns the entry under the derived identifier and leaves the
  reporter as it is.
\<close>

theorem registry_Fetch_Register_Get:
  "(registry (rep st) (fst (NewMetricID nm a (mem st))) = Some v \<longrightarrow>
      Fetch fb nm a st = (v, st\<lparr>mem := snd (NewMetricID nm a (mem st))\<rparr>)) \<and>
   (registry (rep st) (fst (NewMetricID nm a (mem st))) = None \<longrightarrow>
      Fetch fb nm a st =
        (fst (fb (snd (NewMetricID nm a (mem st)))),
         st\<lparr>rep := (rep st)\<lparr>registry := (registry (rep st))
                  (fst (NewMetricID nm a (mem st)) \<mapsto> fst (fb (snd (NewMetricID nm a (mem st)))))\<rparr>,
             mem := snd (fb (snd (NewMetricID nm a (mem st))))\<rparr>)) \<and>
   registry (rep (Register m st)) =
     (registry (rep st))(fst (NewMetricID (Metric_Name m) (Metric_Tags m) (mem st)) \<mapsto> m) \<and>
   GetByID i st = (registry (rep st) i, st) \<and>
   fst (Get nm a st) = registry (rep st) (fst (NewMetricID nm a (mem st))) \<and>
   rep (snd (Get nm a st)) = rep st"
  by (simp add: Fetch_present Fetch_absent Register_registry GetByID_eq Get_eq NewMetricID_store)

theorem registry_Fetch_Register_Get_witness:
  "(let fb = (\<lambda>h. (PtrCounter (NewCounter ''x'' 0), h(7 := ''called'' # h 7)));
        st0 = \<lparr>rep = NewReporter \<lparr>Host = ''h'', ApiKey = ''k''\<rparr> 2,
               mem = (\<lambda>_. [])(0 := [''b'', ''a''])\<rparr>;
        r1 = Fetch fb ''x'' 0 st0;
        r2 = Fetch fb ''x'' 0 (snd r1)
    in registry (rep st0) (fst (NewMetricID ''x'' 0 (mem st0))) = None \<and>
       fst r1 = PtrCounter (NewCounter ''x'' 0) \<and>
       mem (snd r1) 7 = [''called''] \<and>
       registry (rep (snd r1)) (fst (NewMetricID ''x'' 0 (mem (snd r1)))) = Some (fst r1) \<and>
       fst r2 = fst r1 \<and>
       mem (snd r2) 7 = [''called''] \<and>
       registry (rep (snd r2)) = registry (rep (snd r1)))"
proof -
  let ?fb = "\<lambda>h::slices. (PtrCounter (NewCounter ''x'' 0), h(7 := ''called'' # h 7))"
  let ?st0 = "\<lparr>rep = NewReporter \<lparr>Host = ''h'', ApiKey = ''k''\<rparr> 2,
               mem = (\<lambda>_. [])(0 := [''b'', ''a''])\<rparr>"
  have absent: "registry (rep ?st0) (fst (NewMetricID ''x'' 0 (mem ?st0))) = None"
    by (simp add: NewReporter_def)
  have first: "Fetch ?fb ''x'' 0 ?st0 =
      (PtrCounter (NewCounter ''x'' 0),
       ?st0\<lparr>rep := (rep ?st0)\<lparr>registry := (registry (rep ?st0))
                 (''x|a,b'' \<mapsto> PtrCounter (NewCounter ''x'' 0))\<rparr>,
            mem := (\<lambda>_. [])(0 := [''a'', ''b''], 7 := [''called''])\<rparr>)"
    using registry_Fetch_Register_Get [where st = ?st0 and nm = "''x''" and a = 0 and fb = ?fb]
      absent
    by (simp add: NewMetricID_def sort_Strings_def)
  let ?st1 = "snd (Fetch ?fb ''x'' 0 ?st0)"
  have present: "registry (rep ?st1) (fst (NewMetricID ''x'' 0 (mem ?st1))) =
      Some (PtrCounter (NewCounter ''x'' 0))"
    by (simp add: first NewMetricID_def sort_Strings_def)
  have second: "Fetch ?fb ''x'' 0 ?st1 =
      (PtrCounter (NewCounter ''x'' 0), ?st1\<lparr>mem := snd (NewMetricID ''x'' 0 (mem ?st1))\<rparr>)"
    using registry_Fetch_Register_Get [where st = ?st1 and nm = "''x''" and a = 0 and fb = ?fb
        and v = "PtrCounter (NewCounter ''x'' 0)"] present
    by blast
  show ?thesis
    unfolding Let_def
    using absent present
    by (simp add: second) (simp add: first NewMetricID_def sort_Strings_def)
qed

lemma Register_helper_mem:
  "Metric_Tags m = a \<Longrightarrow> mem (Register m st) = (mem st)(a := sort (mem st a))"
  by (simp add: Register_mem)

lemma FetchCounter_mem:
  "FetchCounter nm a st = Inr (c, st') \<Longrightarrow> mem st' = (mem st)(a := sort (mem st a))"
  unfolding FetchCounter_def
  using Fetch_pure_mem [of "PtrCounter (NewCounter nm a)" nm a st]
  by (auto split: prod.splits Metric.splits)

lemma FetchFlashCounter_mem:
  "FetchFlashCounter nm a st = Inr (c, st') \<Longrightarrow> mem st' = (mem st)(a := sort (mem st a))"
  unfolding FetchFlashCounter_def
  using Fetch_pure_mem [of "PtrFlashCounter (NewFlashCounter nm a)" nm a st]
  by (auto split: prod.splits Metric.splits)

lemma FetchGauge_mem:
  "FetchGauge nm a st = Inr (c, st') \<Longrightarrow> mem st' = (mem st)(a := sort (mem st a))"
  unfolding FetchGauge_def
  using Fetch_pure_mem [of "PtrGauge (NewGauge nm a)" nm a st]
  by (auto split: prod.splits Metric.splits)

lemma FetchGaugeF_mem:
  "FetchGaugeF nm a st = Inr (c, st') \<Longrightarrow> mem st' = (mem st)(a := sort (mem st a))"
  unfolding FetchGaugeF_def
  using Fetch_pure_mem [of "PtrGaugeF (NewGaugeF nm a)" nm a st]
  by (auto split: prod.splits Metric.splits)

lemma Register_helpers_mem:
  "BaseMetric.tags (fst (RegisterCounter nm a st)) = a"
  "mem (snd (RegisterCounter nm a st)) = (mem st)(a := sort (mem st a))"
  "BaseMetric.tags (fst (RegisterFlashCounter nm a st)) = a"
  "mem (snd (RegisterFlashCounter nm a st)) = (mem st)(a := sort (mem st a))"
  "BaseMetric.tags (fst (RegisterGauge nm a st)) = a"
  "mem (snd (RegisterGauge nm a st)) = (mem st)(a := sort (mem st a))"
  "BaseMetric.tags (fst (RegisterGaugeF nm a st)) = a"
  "mem (snd (RegisterGaugeF nm a st)) = (mem st)(a := sort (mem st a))"
  by (simp_all add: RegisterCounter_def RegisterFlashCounter_def RegisterGauge_def
        RegisterGaugeF_def NewCounter_def NewFlashCounter_def NewGauge_def NewGaugeF_def
        Register_mem Let_def)

text \<open>
  Claim C10. \<open>NewMetricID\<close> sorts the tag slice it is handed in place: the store
  afterwards is the store before with that one array replaced by its sorted
  arrangement, and no copy in the old order is made. So \<open>Register\<close> (on the metric's
  own tag slice), \<open>Get\<close>, \<open>Fetch\<close> with a fallback that only constructs a metric,
  and the \<open>Register\<close> and \<open>Fetch\<close> helpers of the counter and gauge kinds leave
  the caller's array, which is also the new metric's array, in lexicographic order.
\<close>

theorem NewMetricID_sorts_tags_in_place:
  "snd (NewMetricID nm a h) = h(a := sort (h a)) \<and>
   sorted (snd (NewMetricID nm a h) a) \<and>
   mset (snd (NewMetricID nm a h) a) = mset (h a) \<and>
   mem (Register m st) = (mem st)(Metric_Tags m := sort (mem st (Metric_Tags m))) \<and>
   mem (snd (Get nm a st)) = (mem st)(a := sort (mem st a)) \<and>
   mem (snd (Fetch (\<lambda>h. (v, h)) nm a st)) = (mem st)(a := sort (mem st a)) \<and>
   BaseMetric.tags (fst (RegisterCounter nm a st)) = a \<and>
   mem (snd (RegisterCounter nm a st)) = (mem st)(a := sort (mem st a)) \<and>
   BaseMetric.tags (fst (RegisterFlashCounter nm a st)) = a \<and>
   mem (snd (RegisterFlashCounter nm a st)) = (mem st)(a := sort (mem st a)) \<and>
   BaseMetric.tags (fst (RegisterGauge nm a st)) = a \<and>
   mem (snd (RegisterGauge nm a st)) = (mem st)(a := sort (mem st a)) \<and>
   BaseMetric.tags (fst (RegisterGaugeF nm a st)) = a \<and>
   mem (snd (RegisterGaugeF nm a st)) = (mem st)(a := sort (mem st a)) \<and>
   (FetchCounter nm a st = Inr (c1, st1) \<longrightarrow> mem st1 = (mem st)(a := sort (mem st a))) \<and>
   (FetchFlashCounter nm a st = Inr (c2, st2) \<longrightarrow> mem st2 = (mem st)(a := sort (mem st a))) \<and>
   (FetchGauge nm a st = Inr (c3, st3) \<longrightarrow> mem st3 = (mem st)(a := sort (mem st a))) \<and>
   (FetchGaugeF nm a st = Inr (c4, st4) \<longrightarrow> mem st4 = (mem st)(a := sort (mem st a)))"
  by (simp add: NewMetricID_store Register_mem Get_eq Fetch_pure_mem Register_helpers_mem
        FetchCounter_mem FetchFlashCounter_mem FetchGauge_mem FetchGaugeF_mem)


theorem NewMetricID_sorts_tags_in_place_witness:
  "(\<exists>c s. FetchCounter ''x'' 0
            \<lparr>rep = NewReporter \<lparr>Host = ''h'', ApiKey = ''k''\<rparr> 2,
             mem = (\<lambda>_. [])(0 := [''b'', ''a''])\<rparr> = Inr (c, s) \<and>
          mem s 0 = [''a'', ''b'']) \<and>
   (\<exists>c s. FetchFlashCounter ''x'' 0
            \<lparr>rep = NewReporter \<lparr>Host = ''h'', ApiKey = ''k''\<rparr> 2,
             mem = (\<lambda>_. [])(0 := [''b'', ''a''])\<rparr> = Inr (c, s) \<and>
          mem s 0 = [''a'', ''b'']) \<and>
   (\<exists>c s. FetchGauge ''x'' 0
            \<lparr>rep = NewReporter \<lparr>Host = ''h'', ApiKey = ''k''\<rparr> 2,
             mem = (\<lambda>_. [])(0 := [''b'', ''a''])\<rparr> = Inr (c, s) \<and>
          mem s 0 = [''a'', ''b'']) \<and>
   (\<exists>c s. FetchGaugeF ''x'' 0
            \<lparr>rep = NewReporter \<lparr>Host = ''h'', ApiKey = ''k''\<rparr> 2,
             mem = (\<lambda>_. [])(0 := [''b'', ''a''])\<rparr> = Inr (c, s) \<and>
          mem s 0 = [''a'', ''b'']) \<and>
   mem (Register (PtrCounter (NewCounter ''x'' 0))
          \<lparr>rep = NewReporter \<lparr>Host = ''h'', ApiKey = ''k''\<rparr> 2,
           mem = (\<lambda>_. [])(0 := [''b'', ''a''])\<rparr>) 0 = [''a'', ''b'']"
proof -
  let ?st = "\<lparr>rep = NewReporter \<lparr>Host = ''h'', ApiKey = ''k''\<rparr> 2,
             mem = (\<lambda>_. [])(0 := [''b'', ''a''])\<rparr>"
  obtain c1 s1 where f1: "FetchCounter ''x'' 0 ?st = Inr (c1, s1)"
    by (simp add: FetchCounter_def Fetch_def NewMetricID_def sort_Strings_def NewReporter_def)
  obtain c2 s2 where f2: "FetchFlashCounter ''x'' 0 ?st = Inr (c2, s2)"
    by (simp add: FetchFlashCounter_def Fetch_def NewMetricID_def sort_Strings_def NewReporter_def)
  obtain c3 s3 where f3: "FetchGauge ''x'' 0 ?st = Inr (c3, s3)"
    by (simp add: FetchGauge_def Fetch_def NewMetricID_def sort_Strings_def NewReporter_def)
  obtain c4 s4 where f4: "FetchGaugeF ''x'' 0 ?st = Inr (c4, s4)"
    by (simp add: FetchGaugeF_def Fetch_def NewMetricID_def sort_Strings_def NewReporter_def)
  note inst = NewMetricID_sorts_tags_in_place
    [where nm = "''x''" and a = 0 and st = ?st and m = "PtrCounter (NewCounter ''x'' 0)"
       and ?c1.0 = c1 and ?st1.0 = s1 and ?c2.0 = c2 and ?st2.0 = s2
       and ?c3.0 = c3 and ?st3.0 = s3 and ?c4.0 = c4 and ?st4.0 = s4]
  have "mem s1 0 = [''a'', ''b'']" using inst f1 by simp
  moreover have "mem s2 0 = [''a'', ''b'']" using inst f2 by simp
  moreover have "mem s3 0 = [''a'', ''b'']" using inst f3 by simp
  moreover have "mem s4 0 = [''a'', ''b'']" using inst f4 by simp
  moreover have "mem (Register (PtrCounter (NewCounter ''x'' 0)) ?st) 0 = [''a'', ''b'']"
    using inst by (simp add: NewCounter_def)
  ultimately show ?thesis
    using f1 f2 f3 f4 by simp
qed

subsection \<open>FlashCounter\<close>

text \<open>
  Claim C7. \<open>FlashCounter.Flush\<close> returns exactly one series, named with the suffix
  \<open>.count\<close>, of type counter, whose value is the count read at the flush, and it
  subtracts exactly that count, so the counter reads zero afterwards and a flush after a
  further \<open>Inc(d)\<close> reports \<open>d\<close>, the amount accumulated since the previous flush.
  In particular a fresh FlashCounter after \<open>Inc(5)\<close> flushes the value 5 and then
  reads 0.
\<close>

theorem FlashCounter_Flush_reports_delta:
  "FlashCounter_Flush m now =
     ([\<lparr>Metric = name m @ ''.count'', Points = [(now, IntValue (Counter_Count m))],
        Type = ''counter'', Host = [], Tags = BaseMetric.tags m\<rparr>],
      Counter_Dec m (Counter_Count m)) \<and>
   Counter_Count (snd (FlashCounter_Flush m now)) = 0 \<and>
   fst (FlashCounter_Flush (Counter_Inc (snd (FlashCounter_Flush m now)) d) now') =
     [\<lparr>Metric = name m @ ''.count'', Points = [(now', IntValue d)],
       Type = ''counter'', Host = [], Tags = BaseMetric.tags m\<rparr>] \<and>
   fst (FlashCounter_Flush (Counter_Inc (NewFlashCounter nm tgs) 5) now) =
     [\<lparr>Metric = nm @ ''.count'', Points = [(now, IntValue 5)],
       Type = ''counter'', Host = [], Tags = tgs\<rparr>] \<and>
   Counter_Count (snd (FlashCounter_Flush (Counter_Inc (NewFlashCounter nm tgs) 5) now)) = 0"
  by (simp add: FlashCounter_Flush_def Counter_Count_def Counter_Dec_def Counter_Inc_def
        NewFlashCounter_def NewCounter_def NewSeries_def MT_COUNTER_def Let_def)

subsection \<open>EWMA\<close>

lemma EWMA_Tick_first:
  "\<not> init a \<Longrightarrow> EWMA_Tick a = a\<lparr>uncounted := 0, init := True, rate := float64 (uncounted a) / 5000000000\<rparr>"
  by (simp add: EWMA_Tick_def Let_def)

lemma EWMA_Tick_later:
  "init a \<Longrightarrow> EWMA_Tick a =
     a\<lparr>uncounted := 0, rate := rate a + EWMA.alpha a * (float64 (uncounted a) / 5000000000 - rate a)\<rparr>"
  by (simp add: EWMA_Tick_def Let_def)

lemma EWMA_Rate_first:
  "\<not> init a \<Longrightarrow> EWMA_Rate (EWMA_Tick a) = float64 (uncounted a) / 5"
  by (simp add: EWMA_Tick_first EWMA_Rate_def)

lemma EWMA_Rate_later:
  "init a \<Longrightarrow> EWMA_Rate (EWMA_Tick a) =
     EWMA_Rate a + EWMA.alpha a * (float64 (uncounted a) / 5 - EWMA_Rate a)"
  by (simp add: EWMA_Tick_later EWMA_Rate_def algebra_simps)

lemma EWMA_idle_ticks:
  "init a \<Longrightarrow> uncounted a = 0 \<Longrightarrow>
     init ((EWMA_Tick ^^ k) a) \<and> uncounted ((EWMA_Tick ^^ k) a) = 0 \<and>
     EWMA.alpha ((EWMA_Tick ^^ k) a) = EWMA.alpha a \<and>
     rate ((EWMA_Tick ^^ k) a) = rate a * (1 - EWMA.alpha a) ^ k"
proof (induction k)
  case 0
  then show ?case by simp
next
  case (Suc k)
  then show ?case
    by (simp add: EWMA_Tick_later float64_def algebra_simps)
qed

lemma EWMA1_decay_factor: "(1 - EWMA.alpha NewEWMA1) ^ k = exp (- real k / 12)"
proof -
  have "(1 - EWMA.alpha NewEWMA1) = exp (- 1 / 12)"
    by (simp add: NewEWMA1_def NewEWMA_def)
  then have "(1 - EWMA.alpha NewEWMA1) ^ k = exp (- 1 / 12) ^ k"
    by simp
  also have "\<dots> = exp (real k * (- 1 / 12))"
    by (rule exp_of_nat_mult [symmetric])
  finally show ?thesis by simp
qed

lemma EWMA1_after_first_tick:
  "EWMA_Tick (EWMA_Update NewEWMA1 3) =
     \<lparr>uncounted = 0, EWMA.alpha = 1 - exp (- 5 / 60 / 1), rate = 3 / 5000000000, init = True\<rparr>"
  by (simp add: EWMA_Tick_def EWMA_Update_def NewEWMA1_def NewEWMA_def Let_def float64_def)

lemma EWMA1_reference_rate:
  "EWMA_Rate ((EWMA_Tick ^^ k) (EWMA_Tick (EWMA_Update NewEWMA1 3))) = 6 / 10 * exp (- real k / 12)"
proof -
  let ?a = "EWMA_Tick (EWMA_Update NewEWMA1 3)"
  have a: "init ?a" "uncounted ?a = 0" "rate ?a = 3 / 5000000000"
    "EWMA.alpha ?a = EWMA.alpha NewEWMA1"
    unfolding EWMA1_after_first_tick by (simp_all add: NewEWMA1_def NewEWMA_def)
  have "rate ((EWMA_Tick ^^ k) ?a) = rate ?a * (1 - EWMA.alpha ?a) ^ k"
    using EWMA_idle_ticks [OF a(1) a(2)] by blast
  then have "rate ((EWMA_Tick ^^ k) ?a) = 3 / 5000000000 * exp (- real k / 12)"
    by (simp only: a EWMA1_decay_factor)
  then show ?thesis
    by (simp add: EWMA_Rate_def)
qed

lemma EWMA1_reference_limit:
  "(\<lambda>k. EWMA_Rate ((EWMA_Tick ^^ k) (EWMA_Tick (EWMA_Update NewEWMA1 3)))) \<longlonglongrightarrow> 0"
proof -
  have "(\<lambda>k. exp (- 1 / 12 :: real) ^ k) \<longlonglongrightarrow> 0"
    by (rule LIMSEQ_realpow_zero) simp_all
  then have "(\<lambda>k. 6 / 10 * exp (- 1 / 12 :: real) ^ k) \<longlonglongrightarrow> 6 / 10 * 0"
    by (rule tendsto_mult_left)
  moreover have "\<And>k. exp (- 1 / 12 :: real) ^ k = exp (- real k / 12)"
    using exp_of_nat_mult [of _ "- 1 / 12 :: real"] by simp
  ultimately show ?thesis
    by (simp add: EWMA1_reference_rate)
qed

text \<open>
  Claim C5. On an EWMA whose \<open>init\<close> flag is unset, \<open>Tick\<close> drains the accumulator
  and sets the rate to the drained count over the five-second period, with no blending,
  so \<open>Rate\<close> is the count divided by five, in events per second. On an initialised
  EWMA, \<open>Tick\<close> drains the accumulator and adds \<open>alpha * (instantRate - rate)\<close> to
  the rate. \<open>Rate\<close> is the stored rate (per nanosecond) scaled to seconds. With the
  one-minute alpha, \<open>Update(3)\<close> and one \<open>Tick\<close> give the rate \<open>0.6\<close>, and
  \<open>k\<close> further ticks without updates give \<open>0.6 * exp(-k/12)\<close>, which tends to
  zero. Numbers are reals: floating-point rounding is not modelled.
\<close>

theorem EWMA_Tick_Rate:
  "(\<not> init a \<longrightarrow>
      EWMA_Tick a = a\<lparr>uncounted := 0, init := True, rate := float64 (uncounted a) / 5000000000\<rparr> \<and>
      EWMA_Rate (EWMA_Tick a) = float64 (uncounted a) / 5) \<and>
   (init a \<longrightarrow>
      EWMA_Tick a = a\<lparr>uncounted := 0,
        rate := rate a + EWMA.alpha a * (float64 (uncounted a) / 5000000000 - rate a)\<rparr> \<and>
      EWMA_Rate (EWMA_Tick a) =
        EWMA_Rate a + EWMA.alpha a * (float64 (uncounted a) / 5 - EWMA_Rate a)) \<and>
   EWMA_Rate a = rate a * 1000000000 \<and>
   EWMA_Rate (EWMA_Tick (EWMA_Update NewEWMA1 3)) = 6 / 10 \<and>
   (\<forall>k. EWMA_Rate ((EWMA_Tick ^^ k) (EWMA_Tick (EWMA_Update NewEWMA1 3))) =
          6 / 10 * exp (- real k / 12)) \<and>
   (\<lambda>k. EWMA_Rate ((EWMA_Tick ^^ k) (EWMA_Tick (EWMA_Update NewEWMA1 3)))) \<longlonglongrightarrow> 0"
  using EWMA1_reference_rate [of 0] EWMA1_reference_limit
  by (simp add: EWMA_Tick_first EWMA_Tick_later EWMA_Rate_first EWMA_Rate_later
        EWMA1_reference_rate) (simp add: EWMA_Rate_def)

theorem EWMA_Tick_Rate_witness:
  "\<not> init (EWMA_Update NewEWMA1 3) \<and>
   EWMA_Rate (EWMA_Tick (EWMA_Update NewEWMA1 3)) = 6 / 10 \<and>
   init (EWMA_Tick (EWMA_Update NewEWMA1 3)) \<and>
   EWMA_Rate (EWMA_Tick (EWMA_Tick (EWMA_Update NewEWMA1 3))) = 6 / 10 * exp (- 1 / 12)"
proof -
  let ?a = "EWMA_Update NewEWMA1 3"
  have n: "\<not> init ?a"
    by (simp add: EWMA_Update_def NewEWMA1_def NewEWMA_def)
  have u: "float64 (uncounted ?a) = 3"
    by (simp add: EWMA_Update_def NewEWMA1_def NewEWMA_def float64_def)
  from EWMA_Tick_Rate [of ?a] n
  have t1: "EWMA_Tick ?a = ?a\<lparr>uncounted := 0, init := True,
              rate := float64 (uncounted ?a) / 5000000000\<rparr>"
    and r1: "EWMA_Rate (EWMA_Tick ?a) = float64 (uncounted ?a) / 5"
    by blast+
  have i: "init (EWMA_Tick ?a)"
    by (simp add: t1)
  have u2: "float64 (uncounted (EWMA_Tick ?a)) = 0"
    by (simp add: t1 float64_def)
  have al: "EWMA.alpha (EWMA_Tick ?a) = 1 - exp (- 1 / 12)"
    by (simp add: t1) (simp add: EWMA_Update_def NewEWMA1_def NewEWMA_def)
  from EWMA_Tick_Rate [of "EWMA_Tick ?a"] i
  have "EWMA_Rate (EWMA_Tick (EWMA_Tick ?a)) =
      EWMA_Rate (EWMA_Tick ?a) +
      EWMA.alpha (EWMA_Tick ?a) * (float64 (uncounted (EWMA_Tick ?a)) / 5 - EWMA_Rate (EWMA_Tick ?a))"
    by blast
  then have r2: "EWMA_Rate (EWMA_Tick (EWMA_Tick ?a)) = 6 / 10 * exp (- 1 / 12)"
    by (simp add: r1 u u2 al algebra_simps)
  show ?thesis using n r1 i r2 by (simp add: u)
qed

subsection \<open>Snapshot statistics\<close>

lemma map_insort_key: "map f (insort_key f x ys) = insort (f x) (map f ys)"
  by (induction ys) simp_all

lemma map_sort_key: "map f (sort_key f xs) = sort (map f xs)"
  by (induction xs) (simp_all add: map_insort_key)

lemma sorted_nth0_Min:
  fixes ys :: "int list"
  assumes "sorted ys" "ys \<noteq> []"
  shows "ys ! 0 = Min (set ys)"
proof -
  from assms obtain y zs where ys: "ys = y # zs" by (cases ys) auto
  with assms have "\<forall>z\<in>set ys. y \<le> z" by auto
  then have "Min (set ys) = y"
    using ys by (intro Min_eqI) auto
  then show ?thesis by (simp add: ys)
qed

lemma sorted_last_Max:
  fixes ys :: "int list"
  assumes "sorted ys" "ys \<noteq> []"
  shows "ys ! (length ys - 1) = Max (set ys)"
proof -
  have "\<forall>z\<in>set ys. z \<le> ys ! (length ys - 1)"
  proof
    fix z assume "z \<in> set ys"
    then obtain i where "i < length ys" "ys ! i = z"
      by (auto simp: in_set_conv_nth)
    with assms show "z \<le> ys ! (length ys - 1)"
      using sorted_nth_mono [of ys i "length ys - 1"] by auto
  qed
  moreover have "ys ! (length ys - 1) \<in> set ys"
    using assms by simp
  ultimately have "Max (set ys) = ys ! (length ys - 1)"
    by (intro Max_eqI) auto
  then show ?thesis by simp
qed

lemma Percentiles_indices_in_range:
  assumes "1 \<le> pos" "pos < real n"
  shows "nat (int_of_float64 pos - 1) < n" "nat (int_of_float64 pos) < n"
    "int_of_float64 pos = \<lfloor>pos\<rfloor>" "0 \<le> int_of_float64 pos - 1"
proof -
  show f: "int_of_float64 pos = \<lfloor>pos\<rfloor>"
    using assms by (simp add: int_of_float64_def)
  have "\<lfloor>pos\<rfloor> < int n"
    using assms by (simp add: floor_less_iff)
  moreover have "1 \<le> \<lfloor>pos\<rfloor>"
    using assms by (simp add: le_floor_iff)
  ultimately show "nat (int_of_float64 pos - 1) < n" "nat (int_of_float64 pos) < n"
    "0 \<le> int_of_float64 pos - 1"
    unfolding f by arith+
qed

lemma percentile_score_eq:
  fixes xs :: "int64 list" and p :: real
  assumes "xs \<noteq> []"
  shows "(let vs = sort_key sint xs; n = length xs; pos = p * real (n + 1)
          in if pos < 1 then float64 (vs ! 0)
             else if real n \<le> pos then float64 (vs ! (n - 1))
             else let lower = float64 (vs ! nat (int_of_float64 pos - 1));
                      upper = float64 (vs ! nat (int_of_float64 pos))
                  in lower + (pos - real_of_int \<lfloor>pos\<rfloor>) * (upper - lower))
         = spec_percentile xs p"
proof -
  let ?vs = "sort_key sint xs"
  let ?n = "length xs"
  let ?pos = "p * real (?n + 1)"
  let ?ys = "sort (map sint xs)"
  have ys: "map sint ?vs = ?ys"
    by (simp add: map_sort_key)
  have len: "length ?vs = ?n" "length ?ys = ?n" "0 < ?n"
    using assms by simp_all
  have nth: "\<And>i. i < ?n \<Longrightarrow> float64 (?vs ! i) = real_of_int (?ys ! i)"
    using len ys by (metis float64_def nth_map)
  have srt: "sorted ?ys" "?ys \<noteq> []"
    using len(2,3) by (simp, metis length_greater_0_conv)
  show ?thesis
    unfolding spec_percentile_def Let_def
  proof (cases "?pos < 1")
    case True
    have "float64 (?vs ! 0) = real_of_int (Min (set ?ys))"
      using nth [of 0] len sorted_nth0_Min [OF srt] by simp
    then show "(if ?pos < 1 then float64 (?vs ! 0)
          else if real ?n \<le> ?pos then float64 (?vs ! (?n - 1))
          else float64 (?vs ! nat (int_of_float64 ?pos - 1)) +
               (?pos - real_of_int \<lfloor>?pos\<rfloor>) *
               (float64 (?vs ! nat (int_of_float64 ?pos)) -
                float64 (?vs ! nat (int_of_float64 ?pos - 1)))) =
         (if ?pos < 1 then real_of_int (Min (set ?ys))
          else if real ?n \<le> ?pos then real_of_int (Max (set ?ys))
          else real_of_int (?ys ! (nat \<lfloor>?pos\<rfloor> - 1)) +
               frac ?pos *
               (real_of_int (?ys ! (nat \<lceil>?pos\<rceil> - 1)) -
                real_of_int (?ys ! (nat \<lfloor>?pos\<rfloor> - 1))))"
      using True by (simp only: if_True)
  next
    case False
    show "(if ?pos < 1 then float64 (?vs ! 0)
          else if real ?n \<le> ?pos then float64 (?vs ! (?n - 1))
          else float64 (?vs ! nat (int_of_float64 ?pos - 1)) +
               (?pos - real_of_int \<lfloor>?pos\<rfloor>) *
               (float64 (?vs ! nat (int_of_float64 ?pos)) -
                float64 (?vs ! nat (int_of_float64 ?pos - 1)))) =
         (if ?pos < 1 then real_of_int (Min (set ?ys))
          else if real ?n \<le> ?pos then real_of_int (Max (set ?ys))
          else real_of_int (?ys ! (nat \<lfloor>?pos\<rfloor> - 1)) +
               frac ?pos *
               (real_of_int (?ys ! (nat \<lceil>?pos\<rceil> - 1)) -
                real_of_int (?ys ! (nat \<lfloor>?pos\<rfloor> - 1))))"
    proof (cases "real ?n \<le> ?pos")
      case True
      have "float64 (?vs ! (?n - 1)) = real_of_int (Max (set ?ys))"
        using nth [of "?n - 1"] len sorted_last_Max [OF srt] by simp
      then show ?thesis
        using True False by (simp only: if_True if_False)
    next
      case inner: False
      with False have b: "1 \<le> ?pos" "?pos < real ?n" by simp_all
      note r = Percentiles_indices_in_range [OF b]
      have fl: "1 \<le> \<lfloor>?pos\<rfloor>" using b(1) by (simp only: le_floor_iff of_int_1)
      have lo: "nat (int_of_float64 ?pos - 1) = nat \<lfloor>?pos\<rfloor> - 1"
        unfolding r(3) using fl by arith
      have lower: "float64 (?vs ! nat (int_of_float64 ?pos - 1)) = real_of_int (?ys ! (nat \<lfloor>?pos\<rfloor> - 1))"
        using nth [OF r(1)] by (simp only: lo)
      have upper: "float64 (?vs ! nat (int_of_float64 ?pos)) = real_of_int (?ys ! nat \<lfloor>?pos\<rfloor>)"
        using nth [OF r(2)] by (simp only: r(3))
      have fr: "?pos - real_of_int \<lfloor>?pos\<rfloor> = frac ?pos"
        by (simp only: frac_def)
      have up: "frac ?pos * (real_of_int (?ys ! nat \<lfloor>?pos\<rfloor>) - real_of_int (?ys ! (nat \<lfloor>?pos\<rfloor> - 1)))
          = frac ?pos * (real_of_int (?ys ! (nat \<lceil>?pos\<rceil> - 1)) - real_of_int (?ys ! (nat \<lfloor>?pos\<rfloor> - 1)))"
      proof (cases "frac ?pos = 0")
        case True
        then show ?thesis by (simp only: mult_zero_left)
      next
        case nz: False
        then have ni: "?pos \<notin> \<int>" by (simp only: frac_eq_0_iff not_False_eq_True)
        have "?pos \<noteq> real_of_int \<lfloor>?pos\<rfloor>"
          using ni by (metis Ints_of_int)
        then have "\<lceil>?pos\<rceil> = \<lfloor>?pos\<rfloor> + 1"
          by (simp only: ceiling_altdef if_False)
        then have "nat \<lceil>?pos\<rceil> - 1 = nat \<lfloor>?pos\<rfloor>"
          using fl by arith
        then show ?thesis by (simp only:)
      qed
      show ?thesis
        using False inner by (simp only: if_False lower upper fr up)
    qed
  qed
qed

lemma sint_le_MaxInt64: "sint (x :: int64) \<le> sint MaxInt64"
proof -
  have "sint x < 2 ^ (LENGTH(64) - 1)" by (rule sint_lt)
  moreover have "sint MaxInt64 = 2 ^ 63 - 1" by (simp add: MaxInt64_def)
  ultimately show ?thesis by simp
qed

lemma sint_ge_MinInt64: "sint MinInt64 \<le> sint (x :: int64)"
proof -
  have "- (2 ^ (LENGTH(64) - 1)) \<le> sint x" by (rule sint_ge)
  moreover have "sint MinInt64 = - (2 ^ 63)" by (simp add: MinInt64_def)
  ultimately show ?thesis by simp
qed

lemma fold_min_sint:
  "sint (fold (\<lambda>x mn. if sint mn > sint x then x else mn) xs (a :: int64)) =
     Min (insert (sint a) (sint ` set xs))"
proof (induction xs arbitrary: a)
  case Nil
  then show ?case by simp
next
  case (Cons x xs)
  have "Min (insert (sint (if sint a > sint x then x else a)) (sint ` set xs)) =
        Min (insert (sint a) (insert (sint x) (sint ` set xs)))"
    by (cases "sint ` set xs = {}") (auto simp: min_def)
  then show ?case by (simp add: Cons.IH)
qed

lemma fold_max_sint:
  "sint (fold (\<lambda>x mx. if sint mx < sint x then x else mx) xs (a :: int64)) =
     Max (insert (sint a) (sint ` set xs))"
proof (induction xs arbitrary: a)
  case Nil
  then show ?case by simp
next
  case (Cons x xs)
  have "Max (insert (sint (if sint a < sint x then x else a)) (sint ` set xs)) =
        Max (insert (sint a) (insert (sint x) (sint ` set xs)))"
    by (cases "sint ` set xs = {}") (auto simp: max_def)
  then show ?case by (simp add: Cons.IH)
qed

lemma SampleSnapshot_Min_sint:
  assumes "SampleSnapshot.vals s \<noteq> []"
  shows "sint (SampleSnapshot_Min s) = Min (sint ` set (SampleSnapshot.vals s))"
proof -
  let ?S = "sint ` set (SampleSnapshot.vals s)"
  have ne: "?S \<noteq> {}" "finite ?S" using assms by simp_all
  have "Min ?S \<in> ?S"
    using ne by (intro Min_in)
  then obtain x :: int64 where "Min ?S = sint x" by auto
  then have "Min ?S \<le> sint MaxInt64"
    by (simp add: sint_le_MaxInt64)
  moreover have "Min (insert (sint MaxInt64) ?S) = min (sint MaxInt64) (Min ?S)"
    using ne by (intro Min_insert)
  ultimately have "Min (insert (sint MaxInt64) ?S) = Min ?S"
    by linarith
  then show ?thesis
    using assms by (simp add: SampleSnapshot_Min_def fold_min_sint)
qed

lemma SampleSnapshot_Max_sint:
  assumes "SampleSnapshot.vals s \<noteq> []"
  shows "sint (SampleSnapshot_Max s) = Max (sint ` set (SampleSnapshot.vals s))"
proof -
  let ?S = "sint ` set (SampleSnapshot.vals s)"
  have ne: "?S \<noteq> {}" "finite ?S" using assms by simp_all
  have "Max ?S \<in> ?S"
    using ne by (intro Max_in)
  then obtain x :: int64 where "Max ?S = sint x" by auto
  then have "sint MinInt64 \<le> Max ?S"
    by (simp add: sint_ge_MinInt64)
  moreover have "Max (insert (sint MinInt64) ?S) = max (sint MinInt64) (Max ?S)"
    using ne by (intro Max_insert)
  ultimately have "Max (insert (sint MinInt64) ?S) = Max ?S"
    by linarith
  then show ?thesis
    using assms by (simp add: SampleSnapshot_Max_def fold_max_sint)
qed

lemma fold_add_sum_list:
  fixes g :: "'a \<Rightarrow> 'b::comm_monoid_add"
  shows "fold (\<lambda>x sm. sm + g x) xs a = a + sum_list (map g xs)"
  by (induction xs arbitrary: a) (simp_all add: add.assoc)

lemma SampleSnapshot_Sum_sum_list: "SampleSnapshot_Sum s = sum_list (SampleSnapshot.vals s)"
  using fold_add_sum_list [of "\<lambda>x. x" "SampleSnapshot.vals s" 0]
  by (simp add: SampleSnapshot_Sum_def)

lemma SampleSnapshot_Variance_sum_list:
  "SampleSnapshot_Variance s =
     (if SampleSnapshot.vals s = [] then 0
      else sum_list (map (\<lambda>x. (float64 x - SampleSnapshot_Mean s) * (float64 x - SampleSnapshot_Mean s))
             (SampleSnapshot.vals s)) / real (length (SampleSnapshot.vals s)))"
  by (simp add: SampleSnapshot_Variance_def Let_def fold_add_sum_list)

text \<open>The statistics depend on the multiset of values only, not on their order.\<close>

lemma stats_permutation_invariant:
  assumes "mset (SampleSnapshot.vals s') = mset (SampleSnapshot.vals s)"
  shows "SampleSnapshot_Min s' = SampleSnapshot_Min s"
    and "SampleSnapshot_Max s' = SampleSnapshot_Max s"
    and "SampleSnapshot_Sum s' = SampleSnapshot_Sum s"
    and "SampleSnapshot_Mean s' = SampleSnapshot_Mean s"
    and "SampleSnapshot_Variance s' = SampleSnapshot_Variance s"
    and "SampleSnapshot_StdDev s' = SampleSnapshot_StdDev s"
proof -
  have set_eq: "set (SampleSnapshot.vals s') = set (SampleSnapshot.vals s)"
    using assms by (rule mset_eq_setD)
  have len_eq: "length (SampleSnapshot.vals s') = length (SampleSnapshot.vals s)"
    using assms by (rule mset_eq_length)
  have nil_eq: "SampleSnapshot.vals s' = [] \<longleftrightarrow> SampleSnapshot.vals s = []"
    using len_eq by auto
  show mn: "SampleSnapshot_Min s' = SampleSnapshot_Min s"
  proof (cases "SampleSnapshot.vals s = []")
    case True
    then show ?thesis using nil_eq by (simp add: SampleSnapshot_Min_def)
  next
    case False
    then have "sint (SampleSnapshot_Min s') = sint (SampleSnapshot_Min s)"
      using nil_eq by (simp add: SampleSnapshot_Min_sint set_eq)
    then show ?thesis by (rule signed_word_eqI)
  qed
  show mx: "SampleSnapshot_Max s' = SampleSnapshot_Max s"
  proof (cases "SampleSnapshot.vals s = []")
    case True
    then show ?thesis using nil_eq by (simp add: SampleSnapshot_Max_def)
  next
    case False
    then have "sint (SampleSnapshot_Max s') = sint (SampleSnapshot_Max s)"
      using nil_eq by (simp add: SampleSnapshot_Max_sint set_eq)
    then show ?thesis by (rule signed_word_eqI)
  qed
  show sm: "SampleSnapshot_Sum s' = SampleSnapshot_Sum s"
    using assms by (metis SampleSnapshot_Sum_sum_list sum_mset_sum_list)
  show me: "SampleSnapshot_Mean s' = SampleSnapshot_Mean s"
    by (simp add: SampleSnapshot_Mean_def sm len_eq)
  have "\<And>g :: int64 \<Rightarrow> real. sum_list (map g (SampleSnapshot.vals s')) = sum_list (map g (SampleSnapshot.vals s))"
    using assms by (metis mset_map sum_mset_sum_list)
  then show va: "SampleSnapshot_Variance s' = SampleSnapshot_Variance s"
    by (simp add: SampleSnapshot_Variance_sum_list me len_eq nil_eq)
  show "SampleSnapshot_StdDev s' = SampleSnapshot_StdDev s"
    by (simp add: SampleSnapshot_StdDev_def va)
qed

lemma Percentiles_nonempty:
  assumes "SampleSnapshot.vals s \<noteq> []"
  shows "fst (SampleSnapshot_Percentiles s ps) = map (spec_percentile (SampleSnapshot.vals s)) ps"
    and "snd (SampleSnapshot_Percentiles s ps) = s\<lparr>SampleSnapshot.vals := sort_key sint (SampleSnapshot.vals s)\<rparr>"
proof -
  have "\<And>p. (let vs = sort_key sint (SampleSnapshot.vals s); n = length (SampleSnapshot.vals s);
                  pos = p * real (n + 1)
          in if pos < 1 then float64 (vs ! 0)
             else if real n \<le> pos then float64 (vs ! (n - 1))
             else let lower = float64 (vs ! nat (int_of_float64 pos - 1));
                      upper = float64 (vs ! nat (int_of_float64 pos))
                  in lower + (pos - real_of_int \<lfloor>pos\<rfloor>) * (upper - lower))
         = spec_percentile (SampleSnapshot.vals s) p"
    using assms by (rule percentile_score_eq)
  then show "fst (SampleSnapshot_Percentiles s ps) = map (spec_percentile (SampleSnapshot.vals s)) ps"
    using assms by (simp add: SampleSnapshot_Percentiles_def Let_def)
  show "snd (SampleSnapshot_Percentiles s ps) = s\<lparr>SampleSnapshot.vals := sort_key sint (SampleSnapshot.vals s)\<rparr>"
    using assms by (simp add: SampleSnapshot_Percentiles_def Let_def)
qed

lemma Percentiles_empty:
  assumes "SampleSnapshot.vals s = []"
  shows "SampleSnapshot_Percentiles s ps = (replicate (length ps) 0, s)"
  using assms by (simp add: SampleSnapshot_Percentiles_def)

lemma Percentile_nonempty:
  assumes "SampleSnapshot.vals s \<noteq> []"
  shows "fst (SampleSnapshot_Percentile s p) = spec_percentile (SampleSnapshot.vals s) p"
  using assms Percentiles_nonempty(1) [OF assms, of "[p]"]
  by (simp add: SampleSnapshot_Percentile_def split_beta)

text \<open>
  Claim C4. On a snapshot with at least one value, \<open>Percentiles\<close> sorts the values
  ascending (the snapshot afterwards holds a sorted permutation of them) and every score
  follows the specification's rule: with \<open>pos = p * (n + 1)\<close> it is the minimum for
  \<open>pos < 1\<close>, the maximum for \<open>pos \<ge> n\<close>, and otherwise the linear interpolation
  between the floor and ceiling neighbours by the fractional part of \<open>pos\<close>; the
  minimum and maximum are what \<open>Min\<close> and \<open>Max\<close> return. For the values
  1, 2, 3, 4, 5 the median is 3 and the 75th percentile is 4.5. On an empty snapshot
  \<open>Min\<close>, \<open>Max\<close>, \<open>Mean\<close>, \<open>StdDev\<close>, \<open>Sum\<close> and every percentile are
  zero. Numbers are reals: floating-point rounding is not modelled.
\<close>

theorem SampleSnapshot_Percentiles_rule:
  "(SampleSnapshot.vals s \<noteq> [] \<longrightarrow>
      fst (SampleSnapshot_Percentiles s ps) = map (spec_percentile (SampleSnapshot.vals s)) ps \<and>
      fst (SampleSnapshot_Percentile s p) = spec_percentile (SampleSnapshot.vals s) p \<and>
      sorted (map sint (SampleSnapshot.vals (snd (SampleSnapshot_Percentiles s ps)))) \<and>
      mset (SampleSnapshot.vals (snd (SampleSnapshot_Percentiles s ps))) = mset (SampleSnapshot.vals s) \<and>
      float64 (SampleSnapshot_Min s) = real_of_int (Min (set (sort (map sint (SampleSnapshot.vals s))))) \<and>
      float64 (SampleSnapshot_Max s) = real_of_int (Max (set (sort (map sint (SampleSnapshot.vals s)))))) \<and>
   fst (SampleSnapshot_Percentile
          \<lparr>SampleSnapshot.count = c, SampleSnapshot.vals = [1, 2, 3, 4, 5]\<rparr> (1 / 2)) = 3 \<and>
   fst (SampleSnapshot_Percentile
          \<lparr>SampleSnapshot.count = c, SampleSnapshot.vals = [1, 2, 3, 4, 5]\<rparr> (75 / 100)) = 45 / 10 \<and>
   (SampleSnapshot.vals s = [] \<longrightarrow>
      SampleSnapshot_Min s = 0 \<and> SampleSnapshot_Max s = 0 \<and> SampleSnapshot_Mean s = 0 \<and>
      SampleSnapshot_StdDev s = 0 \<and> SampleSnapshot_Sum s = 0 \<and>
      fst (SampleSnapshot_Percentile s p) = 0 \<and>
      fst (SampleSnapshot_Percentiles s ps) = replicate (length ps) 0)"
proof -
  have nonempty: "fst (SampleSnapshot_Percentiles s ps) = map (spec_percentile (SampleSnapshot.vals s)) ps \<and>
      fst (SampleSnapshot_Percentile s p) = spec_percentile (SampleSnapshot.vals s) p \<and>
      sorted (map sint (SampleSnapshot.vals (snd (SampleSnapshot_Percentiles s ps)))) \<and>
      mset (SampleSnapshot.vals (snd (SampleSnapshot_Percentiles s ps))) = mset (SampleSnapshot.vals s) \<and>
      float64 (SampleSnapshot_Min s) = real_of_int (Min (set (sort (map sint (SampleSnapshot.vals s))))) \<and>
      float64 (SampleSnapshot_Max s) = real_of_int (Max (set (sort (map sint (SampleSnapshot.vals s)))))"
    if ne: "SampleSnapshot.vals s \<noteq> []"
  proof -
    have "sorted (map sint (sort_key sint (SampleSnapshot.vals s)))"
      by (simp add: map_sort_key)
    then show ?thesis
      using ne
      by (simp add: Percentiles_nonempty Percentile_nonempty float64_def
            SampleSnapshot_Min_sint SampleSnapshot_Max_sint)
  qed
  have median: "fst (SampleSnapshot_Percentile
          \<lparr>SampleSnapshot.count = c, SampleSnapshot.vals = [1, 2, 3, 4, 5]\<rparr> (1 / 2)) = 3"
    by (simp add: SampleSnapshot_Percentile_def SampleSnapshot_Percentiles_def Let_def float64_def
          int_of_float64_def)
  have p75: "fst (SampleSnapshot_Percentile
          \<lparr>SampleSnapshot.count = c, SampleSnapshot.vals = [1, 2, 3, 4, 5]\<rparr> (75 / 100)) = 45 / 10"
    by (simp add: SampleSnapshot_Percentile_def SampleSnapshot_Percentiles_def Let_def float64_def
          int_of_float64_def)
  have empty: "SampleSnapshot_Min s = 0 \<and> SampleSnapshot_Max s = 0 \<and> SampleSnapshot_Mean s = 0 \<and>
      SampleSnapshot_StdDev s = 0 \<and> SampleSnapshot_Sum s = 0 \<and>
      fst (SampleSnapshot_Percentile s p) = 0 \<and>
      fst (SampleSnapshot_Percentiles s ps) = replicate (length ps) 0"
    if "SampleSnapshot.vals s = []"
    using that
    by (simp add: SampleSnapshot_Min_def SampleSnapshot_Max_def SampleSnapshot_Mean_def
          SampleSnapshot_StdDev_def SampleSnapshot_Variance_def SampleSnapshot_Sum_def
          SampleSnapshot_Percentile_def Percentiles_empty)
  from nonempty median p75 empty show ?thesis by blast
qed

theorem SampleSnapshot_Percentiles_rule_witness:
  "SampleSnapshot.vals \<lparr>SampleSnapshot.count = 7, SampleSnapshot.vals = [5, 3, 1, 4, 2]\<rparr> \<noteq> [] \<and>
   fst (SampleSnapshot_Percentiles
          \<lparr>SampleSnapshot.count = 7, SampleSnapshot.vals = [5, 3, 1, 4, 2]\<rparr>
          [1 / 10, 1 / 2, 75 / 100, 99 / 100]) = [1, 3, 45 / 10, 5] \<and>
   spec_percentile [5, 3, 1, 4, 2] (75 / 100) = 45 / 10 \<and>
   SampleSnapshot.vals (snd (SampleSnapshot_Percentiles
          \<lparr>SampleSnapshot.count = 7, SampleSnapshot.vals = [5, 3, 1, 4, 2]\<rparr> [])) = [1, 2, 3, 4, 5] \<and>
   SampleSnapshot.vals \<lparr>SampleSnapshot.count = 0, SampleSnapshot.vals = []\<rparr> = [] \<and>
   SampleSnapshot_StdDev \<lparr>SampleSnapshot.count = 0, SampleSnapshot.vals = []\<rparr> = 0 \<and>
   fst (SampleSnapshot_Percentile \<lparr>SampleSnapshot.count = 0, SampleSnapshot.vals = []\<rparr> (1 / 2)) = 0"
proof -
  let ?s = "\<lparr>SampleSnapshot.count = 7, SampleSnapshot.vals = [5, 3, 1, 4, 2]\<rparr>"
  let ?e = "\<lparr>SampleSnapshot.count = 0, SampleSnapshot.vals = []\<rparr>"
  have ne: "SampleSnapshot.vals ?s \<noteq> []" by simp
  have em: "SampleSnapshot.vals ?e = []" by simp
  have scores: "fst (SampleSnapshot_Percentiles ?s [1 / 10, 1 / 2, 75 / 100, 99 / 100]) = [1, 3, 45 / 10, 5]"
    by (simp add: SampleSnapshot_Percentiles_def Let_def float64_def int_of_float64_def)
  from SampleSnapshot_Percentiles_rule [of ?s "[1 / 10, 1 / 2, 75 / 100, 99 / 100]" "75 / 100"] ne
  have "fst (SampleSnapshot_Percentile ?s (75 / 100)) =
        spec_percentile (SampleSnapshot.vals ?s) (75 / 100)"
    by blast
  moreover have "fst (SampleSnapshot_Percentile ?s (75 / 100)) = 45 / 10"
    by (simp add: SampleSnapshot_Percentile_def SampleSnapshot_Percentiles_def Let_def float64_def
          int_of_float64_def)
  ultimately have sp: "spec_percentile [5, 3, 1, 4, 2] (75 / 100) = 45 / 10"
    by simp
  have srt: "SampleSnapshot.vals (snd (SampleSnapshot_Percentiles ?s [])) = [1, 2, 3, 4, 5]"
    by (simp add: SampleSnapshot_Percentiles_def Let_def)
  from SampleSnapshot_Percentiles_rule [of ?e "[]" "1 / 2"] em
  have "SampleSnapshot_StdDev ?e = 0" "fst (SampleSnapshot_Percentile ?e (1 / 2)) = 0"
    by blast+
  with ne em scores sp srt show ?thesis by blast
qed

subsection \<open>Timer\<close>

lemma Percentiles_map_Percentile:
  "fst (SampleSnapshot_Percentiles s ps) = map (\<lambda>p. fst (SampleSnapshot_Percentile s p)) ps"
proof (cases "SampleSnapshot.vals s = []")
  case True
  then show ?thesis
    by (simp add: Percentiles_empty SampleSnapshot_Percentile_def map_replicate_const)
next
  case False
  then show ?thesis
    by (simp add: Percentiles_nonempty Percentile_nonempty)
qed

lemma Percentiles_snd_mset:
  "mset (SampleSnapshot.vals (snd (SampleSnapshot_Percentiles s ps))) = mset (SampleSnapshot.vals s)"
  "SampleSnapshot_Count (snd (SampleSnapshot_Percentiles s ps)) = SampleSnapshot_Count s"
  by (cases "SampleSnapshot.vals s = []";
      simp add: Percentiles_empty Percentiles_nonempty SampleSnapshot_Count_def)+

lemma Sample_Snapshot_returns:
  assumes "\<And>s. smp = PtrFlashSample s \<Longrightarrow> 0 \<le> UniformSample.reservoirSize s"
  shows "\<exists>snap smp'. Sample_Snapshot smp = Inr (snap, smp')"
  using assms
  by (cases smp) (auto simp: FlashSample_Snapshot_def UniformSample_Clear_def Let_def)

lemma Timer_Flush_eq:
  assumes snap: "Sample_Snapshot (Timer.sample t) = Inr (snap, smp)"
  shows "Timer_Flush t now = Inr
    ([\<lparr>Metric = name t @ ''.rate'', Points = [(now, FloatValue (rateMean t))],
        Type = ''gauge'', Host = [], Tags = BaseMetric.tags t\<rparr>,
      \<lparr>Metric = name t @ ''.rate1'', Points = [(now, FloatValue (rate1 t))],
        Type = ''gauge'', Host = [], Tags = BaseMetric.tags t\<rparr>,
      \<lparr>Metric = name t @ ''.rate5'', Points = [(now, FloatValue (rate5 t))],
        Type = ''gauge'', Host = [], Tags = BaseMetric.tags t\<rparr>,
      \<lparr>Metric = name t @ ''.rate15'', Points = [(now, FloatValue (rate15 t))],
        Type = ''gauge'', Host = [], Tags = BaseMetric.tags t\<rparr>,
      \<lparr>Metric = name t @ ''.count'', Points = [(now, IntValue (SampleSnapshot_Count snap))],
        Type = ''counter'', Host = [], Tags = BaseMetric.tags t\<rparr>,
      \<lparr>Metric = name t @ ''.min'', Points = [(now, FloatValue (float64 (SampleSnapshot_Min snap) / unit t))],
        Type = ''gauge'', Host = [], Tags = BaseMetric.tags t\<rparr>,
      \<lparr>Metric = name t @ ''.max'', Points = [(now, FloatValue (float64 (SampleSnapshot_Max snap) / unit t))],
        Type = ''gauge'', Host = [], Tags = BaseMetric.tags t\<rparr>,
      \<lparr>Metric = name t @ ''.mean'', Points = [(now, FloatValue (SampleSnapshot_Mean snap / unit t))],
        Type = ''gauge'', Host = [], Tags = BaseMetric.tags t\<rparr>,
      \<lparr>Metric = name t @ ''.stddev'', Points = [(now, FloatValue (SampleSnapshot_StdDev snap / unit t))],
        Type = ''gauge'', Host = [], Tags = BaseMetric.tags t\<rparr>,
      \<lparr>Metric = name t @ ''.median'',
        Points = [(now, FloatValue (fst (SampleSnapshot_Percentile snap (5 / 10)) / unit t))],
        Type = ''gauge'', Host = [], Tags = BaseMetric.tags t\<rparr>,
      \<lparr>Metric = name t @ ''.percentile.75'',
        Points = [(now, FloatValue (fst (SampleSnapshot_Percentile snap (75 / 100)) / unit t))],
        Type = ''gauge'', Host = [], Tags = BaseMetric.tags t\<rparr>,
      \<lparr>Metric = name t @ ''.percentile.95'',
        Points = [(now, FloatValue (fst (SampleSnapshot_Percentile snap (95 / 100)) / unit t))],
        Type = ''gauge'', Host = [], Tags = BaseMetric.tags t\<rparr>,
      \<lparr>Metric = name t @ ''.percentile.99'',
        Points = [(now, FloatValue (fst (SampleSnapshot_Percentile snap (99 / 100)) / unit t))],
        Type = ''gauge'', Host = [], Tags = BaseMetric.tags t\<rparr>],
     t\<lparr>Timer.sample := smp\<rparr>)"
proof -
  let ?ps = "[5 / 10, 75 / 100, 95 / 100, 99 / 100] :: real list"
  obtain p snap' where P: "SampleSnapshot_Percentiles snap ?ps = (p, snap')"
    by (cases "SampleSnapshot_Percentiles snap ?ps") 
  have p: "p = map (\<lambda>q. fst (SampleSnapshot_Percentile snap q)) ?ps"
    using Percentiles_map_Percentile [of snap ?ps] P by (simp only: fst_conv)
  have m: "mset (SampleSnapshot.vals snap') = mset (SampleSnapshot.vals snap)"
    and c: "SampleSnapshot_Count snap' = SampleSnapshot_Count snap"
    using Percentiles_snd_mset [of snap ?ps] P by (simp_all only: snd_conv)
  note st = stats_permutation_invariant [OF m]
  have nths: "p ! 0 = fst (SampleSnapshot_Percentile snap (5 / 10))"
    "p ! 1 = fst (SampleSnapshot_Percentile snap (75 / 100))"
    "p ! 2 = fst (SampleSnapshot_Percentile snap (95 / 100))"
    "p ! 3 = fst (SampleSnapshot_Percentile snap (99 / 100))"
    unfolding p by (simp_all only: nth_map list.map nth_Cons_0 nth_Cons_numeral nth_Cons_Suc One_nat_def
                       numeral_3_eq_3 numeral_2_eq_2 diff_Suc_1 pred_numeral_simps)
  show ?thesis
    unfolding Timer_Flush_def Timer_Snapshot_def snap sum.case prod.case P Let_def
    by (simp only: nths st c NewSeries_def MT_GAUGE_def MT_COUNTER_def Timer_norm_def
          Meter_RateMean_def Meter_Rate1_def Meter_Rate5_def Meter_Rate15_def)
qed

text \<open>
  Claim C8, amended. The claim says that all sample-derived values are divided by the
  unit; the code does not divide \<open>.count\<close>. What holds: for every timer (whose
  sample, if it is a \<open>FlashSample\<close>, was constructed with a capacity that is not
  negative, so that its \<open>Snapshot\<close> returns), \<open>Flush\<close> returns exactly thirteen
  series, named by the timer's name and the suffixes \<open>.rate\<close>, \<open>.rate1\<close>,
  \<open>.rate5\<close>, \<open>.rate15\<close>, \<open>.count\<close>, \<open>.min\<close>, \<open>.max\<close>, \<open>.mean\<close>,
  \<open>.stddev\<close>, \<open>.median\<close>, \<open>.percentile.75\<close>, \<open>.percentile.95\<close>,
  \<open>.percentile.99\<close>, in this order. The four rates are the meter's; the minimum,
  maximum, mean, standard deviation, median and the three percentiles of the sample's
  snapshot are divided by the unit; \<open>.count\<close> is the snapshot's count of
  observations, undivided, an integer of type counter. Numbers are reals: for a zero
  unit, where Go divides to an infinity or NaN, the quotients here are HOL's.
\<close>

theorem Timer_Flush_series:
  "(\<forall>s. Timer.sample t = PtrFlashSample s \<longrightarrow> 0 \<le> UniformSample.reservoirSize s) \<Longrightarrow>
   \<exists>snap smp ss.
     Sample_Snapshot (Timer.sample t) = Inr (snap, smp) \<and>
     Timer_Flush t now = Inr (ss, t\<lparr>Timer.sample := smp\<rparr>) \<and>
     length ss = 13 \<and>
     map Metric ss = map (\<lambda>suffix. name t @ suffix)
       [''.rate'', ''.rate1'', ''.rate5'', ''.rate15'', ''.count'', ''.min'', ''.max'', ''.mean'',
        ''.stddev'', ''.median'', ''.percentile.75'', ''.percentile.95'', ''.percentile.99''] \<and>
     map Points ss = map (\<lambda>x. [(now, x)])
       [FloatValue (rateMean t), FloatValue (rate1 t), FloatValue (rate5 t),
        FloatValue (rate15 t),
        IntValue (SampleSnapshot_Count snap),
        FloatValue (float64 (SampleSnapshot_Min snap) / unit t),
        FloatValue (float64 (SampleSnapshot_Max snap) / unit t),
        FloatValue (SampleSnapshot_Mean snap / unit t),
        FloatValue (SampleSnapshot_StdDev snap / unit t),
        FloatValue (fst (SampleSnapshot_Percentile snap (5 / 10)) / unit t),
        FloatValue (fst (SampleSnapshot_Percentile snap (75 / 100)) / unit t),
        FloatValue (fst (SampleSnapshot_Percentile snap (95 / 100)) / unit t),
        FloatValue (fst (SampleSnapshot_Percentile snap (99 / 100)) / unit t)] \<and>
     map Type ss =
       [''gauge'', ''gauge'', ''gauge'', ''gauge'', ''counter'', ''gauge'', ''gauge'', ''gauge'',
        ''gauge'', ''gauge'', ''gauge'', ''gauge'', ''gauge''] \<and>
     map Tags ss = replicate 13 (BaseMetric.tags t) \<and>
     map Series.Host ss = replicate 13 []"
proof -
  assume "\<forall>s. Timer.sample t = PtrFlashSample s \<longrightarrow> 0 \<le> UniformSample.reservoirSize s"
  then obtain snap smp where snap: "Sample_Snapshot (Timer.sample t) = Inr (snap, smp)"
    using Sample_Snapshot_returns [of "Timer.sample t"] by blast
  show ?thesis
    by (intro exI conjI, rule snap, rule Timer_Flush_eq [OF snap])
       (simp_all add: numeral_eq_Suc)
qed


theorem Timer_Flush_series_witness:
  "(\<exists>ss t'. Timer_Flush \<lparr>name = ''req'', tags = 0, Meter.count = 2, startTime = 0, rate1 = 0, rate5 = 0,
             rate15 = 0, rateMean = 0, a1 = NewEWMA1, a5 = NewEWMA5, a15 = NewEWMA15,
             unit = 1000000,
             Timer.sample = PtrUniformSample
               \<lparr>UniformSample.count = 2, UniformSample.reservoirSize = 4,
                UniformSample.vals = [3000000, 1000000]\<rparr>\<rparr> 100 = Inr (ss, t') \<and>
      map Metric ss =
        [''req.rate'', ''req.rate1'', ''req.rate5'', ''req.rate15'', ''req.count'', ''req.min'',
         ''req.max'', ''req.mean'', ''req.stddev'', ''req.median'', ''req.percentile.75'',
         ''req.percentile.95'', ''req.percentile.99''] \<and>
      map Points (take 4 (drop 4 ss)) =
        [[(100, IntValue 2)], [(100, FloatValue 1)], [(100, FloatValue 3)], [(100, FloatValue 2)]])"
proof -
  let ?t = "\<lparr>name = ''req'', tags = 0, Meter.count = 2, startTime = 0, rate1 = 0, rate5 = 0,
             rate15 = 0, rateMean = 0, a1 = NewEWMA1, a5 = NewEWMA5, a15 = NewEWMA15,
             unit = 1000000,
             Timer.sample = PtrUniformSample
               \<lparr>UniformSample.count = 2, UniformSample.reservoirSize = 4,
                UniformSample.vals = [3000000, 1000000]\<rparr>\<rparr>"
  have f: "\<forall>s. Timer.sample ?t = PtrFlashSample s \<longrightarrow> 0 \<le> UniformSample.reservoirSize s"
    by simp
  from Timer_Flush_series [OF f, of 100]
  obtain snap smp ss where
    sn: "Sample_Snapshot (Timer.sample ?t) = Inr (snap, smp)" and
    fl: "Timer_Flush ?t 100 = Inr (ss, ?t\<lparr>Timer.sample := smp\<rparr>)" and
    len: "length ss = 13" and
    nm: "map Metric ss = map (\<lambda>suffix. name ?t @ suffix)
       [''.rate'', ''.rate1'', ''.rate5'', ''.rate15'', ''.count'', ''.min'', ''.max'', ''.mean'',
        ''.stddev'', ''.median'', ''.percentile.75'', ''.percentile.95'', ''.percentile.99'']" and
    pt: "map Points ss = map (\<lambda>x. [(100, x)])
       [FloatValue (rateMean ?t), FloatValue (rate1 ?t), FloatValue (rate5 ?t),
        FloatValue (rate15 ?t),
        IntValue (SampleSnapshot_Count snap),
        FloatValue (float64 (SampleSnapshot_Min snap) / unit ?t),
        FloatValue (float64 (SampleSnapshot_Max snap) / unit ?t),
        FloatValue (SampleSnapshot_Mean snap / unit ?t),
        FloatValue (SampleSnapshot_StdDev snap / unit ?t),
        FloatValue (fst (SampleSnapshot_Percentile snap (5 / 10)) / unit ?t),
        FloatValue (fst (SampleSnapshot_Percentile snap (75 / 100)) / unit ?t),
        FloatValue (fst (SampleSnapshot_Percentile snap (95 / 100)) / unit ?t),
        FloatValue (fst (SampleSnapshot_Percentile snap (99 / 100)) / unit ?t)]"
    by blast
  have snap: "snap = \<lparr>SampleSnapshot.count = 2, SampleSnapshot.vals = [3000000, 1000000]\<rparr>"
    using sn by (simp add: UniformSample_Snapshot_def NewSampleSnapshot_def
                   UniformSample_Count_def UniformSample_Values_def)
  have vals: "SampleSnapshot_Count snap = 2" "float64 (SampleSnapshot_Min snap) = 1000000"
    "float64 (SampleSnapshot_Max snap) = 3000000" "SampleSnapshot_Mean snap = 2000000"
    by (simp_all add: snap SampleSnapshot_Count_def SampleSnapshot_Min_def SampleSnapshot_Max_def
          SampleSnapshot_Mean_def SampleSnapshot_Sum_def float64_def MaxInt64_def MinInt64_def)
  have "map Points (take 4 (drop 4 ss)) = take 4 (drop 4 (map Points ss))"
    by (simp add: take_map drop_map)
  also have "\<dots> = [[(100, IntValue 2)], [(100, FloatValue 1)], [(100, FloatValue 3)],
                    [(100, FloatValue 2)]]"
    unfolding pt by (simp add: vals)
  finally have pts: "map Points (take 4 (drop 4 ss)) =
      [[(100, IntValue 2)], [(100, FloatValue 1)], [(100, FloatValue 3)], [(100, FloatValue 2)]]" .
  have nms: "map Metric ss =
        [''req.rate'', ''req.rate1'', ''req.rate5'', ''req.rate15'', ''req.count'', ''req.min'',
         ''req.max'', ''req.mean'', ''req.stddev'', ''req.median'', ''req.percentile.75'',
         ''req.percentile.95'', ''req.percentile.99'']"
    unfolding nm by simp
  show ?thesis
    by (rule exI [of _ ss], rule exI [of _ "?t\<lparr>Timer.sample := smp\<rparr>"],
        intro conjI, rule fl, rule nms, rule pts)
qed

text \<open>
  The claim as it was stated fails at \<open>.count\<close>: for a timer with the unit
  \<open>1000000\<close> whose sample has seen two values, the fifth series is \<open>req.count\<close>
  with the integer 2, not 2 divided by the unit.
\<close>

theorem Timer_Flush_count_undivided_counterexample:
  "map Metric (take 1 (drop 4 (fst (projr (Timer_Flush \<lparr>name = ''req'', tags = 0, Meter.count = 2, startTime = 0, rate1 = 0, rate5 = 0,
             rate15 = 0, rateMean = 0, a1 = NewEWMA1, a5 = NewEWMA5, a15 = NewEWMA15,
             unit = 1000000,
             Timer.sample = PtrUniformSample
               \<lparr>UniformSample.count = 2, UniformSample.reservoirSize = 4,
                UniformSample.vals = [3000000, 1000000]\<rparr>\<rparr> 100))))) = [''req.count''] \<and>
   map Points (take 1 (drop 4 (fst (projr (Timer_Flush \<lparr>name = ''req'', tags = 0, Meter.count = 2, startTime = 0, rate1 = 0, rate5 = 0,
             rate15 = 0, rateMean = 0, a1 = NewEWMA1, a5 = NewEWMA5, a15 = NewEWMA15,
             unit = 1000000,
             Timer.sample = PtrUniformSample
               \<lparr>UniformSample.count = 2, UniformSample.reservoirSize = 4,
                UniformSample.vals = [3000000, 1000000]\<rparr>\<rparr> 100))))) = [[(100, IntValue 2)]] \<and>
   map Points (take 1 (drop 4 (fst (projr (Timer_Flush \<lparr>name = ''req'', tags = 0, Meter.count = 2, startTime = 0, rate1 = 0, rate5 = 0,
             rate15 = 0, rateMean = 0, a1 = NewEWMA1, a5 = NewEWMA5, a15 = NewEWMA15,
             unit = 1000000,
             Timer.sample = PtrUniformSample
               \<lparr>UniformSample.count = 2, UniformSample.reservoirSize = 4,
                UniformSample.vals = [3000000, 1000000]\<rparr>\<rparr> 100))))) \<noteq>
     [[(100, FloatValue (float64 2 / unit \<lparr>name = ''req'', tags = 0, Meter.count = 2, startTime = 0, rate1 = 0, rate5 = 0,
             rate15 = 0, rateMean = 0, a1 = NewEWMA1, a5 = NewEWMA5, a15 = NewEWMA15,
             unit = 1000000,
             Timer.sample = PtrUniformSample
               \<lparr>UniformSample.count = 2, UniformSample.reservoirSize = 4,
                UniformSample.vals = [3000000, 1000000]\<rparr>\<rparr>))]] \<and>
   float64 2 / unit \<lparr>name = ''req'', tags = 0, Meter.count = 2, startTime = 0, rate1 = 0, rate5 = 0,
             rate15 = 0, rateMean = 0, a1 = NewEWMA1, a5 = NewEWMA5, a15 = NewEWMA15,
             unit = 1000000,
             Timer.sample = PtrUniformSample
               \<lparr>UniformSample.count = 2, UniformSample.reservoirSize = 4,
                UniformSample.vals = [3000000, 1000000]\<rparr>\<rparr> \<noteq> float64 2"
proof -
  let ?t = "\<lparr>name = ''req'', tags = 0, Meter.count = 2, startTime = 0, rate1 = 0, rate5 = 0,
             rate15 = 0, rateMean = 0, a1 = NewEWMA1, a5 = NewEWMA5, a15 = NewEWMA15,
             unit = 1000000,
             Timer.sample = PtrUniformSample
               \<lparr>UniformSample.count = 2, UniformSample.reservoirSize = 4,
                UniformSample.vals = [3000000, 1000000]\<rparr>\<rparr>"
  let ?snap = "\<lparr>SampleSnapshot.count = 2, SampleSnapshot.vals = [3000000, 1000000]\<rparr>"
  have sn: "Sample_Snapshot (Timer.sample ?t) = Inr (?snap, Timer.sample ?t)"
    by (simp add: UniformSample_Snapshot_def NewSampleSnapshot_def
          UniformSample_Count_def UniformSample_Values_def)
  have c: "SampleSnapshot_Count ?snap = 2"
    by (simp add: SampleSnapshot_Count_def)
  show ?thesis
    unfolding Timer_Flush_eq [OF sn]
    by (simp add: c float64_def)
qed

subsection \<open>Exponentially-decaying sample\<close>

declare heap_up.simps [simp del]
declare heap_down.simps [simp del]

lemma length_Swap: "length (expDecaySampleHeap_Swap q i j) = length q"
  by (simp add: expDecaySampleHeap_Swap_def)

lemma length_heap_up: "length (heap_up q j) = length q"
proof (induction q j rule: heap_up.induct)
  case (1 q j)
  show ?case
    by (subst heap_up.simps) (simp add: Let_def "1.IH" length_Swap)
qed

lemma length_heap_down: "length (heap_down q i n) = length q"
proof (induction q i n rule: heap_down.induct)
  case (1 q i n)
  show ?case
    by (subst heap_down.simps) (simp add: Let_def "1.IH" length_Swap)
qed

lemma heap_Push_length:
  "heap_Push cap q x = (if int (length q) < cap then Inr (heap_up (q @ [x]) (length q))
                        else Inl SliceBoundsOutOfRange)"
  "heap_Push cap q x = Inr q' \<Longrightarrow> length q' = length q + 1 \<and> int (length q') \<le> cap"
  by (auto simp: heap_Push_def length_heap_up split: if_splits)

lemma heap_Pop_length:
  "heap_Pop q = Inr (m, q') \<Longrightarrow> length q' = length q - 1"
  "q \<noteq> [] \<Longrightarrow> \<exists>m q'. heap_Pop q = Inr (m, q')"
  "heap_Pop q = Inl e \<Longrightarrow> q = []"
  by (auto simp: heap_Pop_def Let_def length_heap_down length_Swap split: if_splits)

lemma rescale_push_length:
  "int (length q) + int (length xs) \<le> cap \<Longrightarrow>
     \<exists>q'. rescale_push cap f xs q = Inr q' \<and> length q' = length q + length xs"
proof (induction xs arbitrary: q)
  case Nil
  then show ?case by simp
next
  case (Cons x xs)
  then have lt: "int (length q) < cap" by simp
  let ?q1 = "heap_up (q @ [x\<lparr>key := key x * f\<rparr>]) (length q)"
  have push: "heap_Push cap q (x\<lparr>key := key x * f\<rparr>) = Inr ?q1"
    using lt by (simp add: heap_Push_length(1))
  have "int (length ?q1) + int (length xs) \<le> cap"
    using Cons.prems by (simp add: length_heap_up)
  from Cons.IH [OF this] obtain q' where
    "rescale_push cap f xs ?q1 = Inr q'" "length q' = length ?q1 + length xs"
    by blast
  then show ?case
    by (simp add: push length_heap_up)
qed

text \<open>
  One \<open>update\<close> on a sample that holds at most \<open>reservoirSize\<close> entries: it returns
  exactly when the capacity is positive, and the sample then holds at most
  \<open>reservoirSize\<close> entries again.
\<close>

lemma ExpDecaySample_update_invariant:
  assumes inv: "int (length (ExpDecaySample.vals s)) \<le> ExpDecaySample.reservoirSize s"
  shows "(0 < ExpDecaySample.reservoirSize s \<longrightarrow> (\<exists>s'. ExpDecaySample_update t u x s = Inr s')) \<and>
         (\<forall>s'. ExpDecaySample_update t u x s = Inr s' \<longrightarrow>
            ExpDecaySample.reservoirSize s' = ExpDecaySample.reservoirSize s \<and>
            int (length (ExpDecaySample.vals s')) \<le> ExpDecaySample.reservoirSize s' \<and>
            0 < length (ExpDecaySample.vals s')) \<and>
         (\<forall>e. ExpDecaySample_update t u x s = Inl e \<longrightarrow> ExpDecaySample.reservoirSize s = 0)"
proof -
  let ?rs = "ExpDecaySample.reservoirSize s"
  let ?q = "ExpDecaySample.vals s"
  let ?x = "\<lparr>key = exp (Duration_Seconds (Time_Sub t (t0 s)) * ExpDecaySample.alpha s) / u, val = x\<rparr>"
  let ?f = "exp (- ExpDecaySample.alpha s * real_of_int (Time_Sub t (t0 s)))"
  show ?thesis
  proof (cases "?rs = 0")
    case True
    with inv have "?q = []" by simp
    then have "ExpDecaySample_update t u x s = Inl IndexOutOfRange"
      using True by (simp add: ExpDecaySample_update_def Let_def heap_Pop_def)
    then show ?thesis using True by simp
  next
    case False
    with inv have pos: "0 < ?rs"
      by (smt (verit) of_nat_0_le_iff)
    obtain q1 where q1: "(int (length ?q) = ?rs \<and> (\<exists>m. heap_Pop ?q = Inr (m, q1))) \<or>
                         (int (length ?q) \<noteq> ?rs \<and> q1 = ?q)"
      and l1: "int (length q1) < ?rs"
    proof (cases "int (length ?q) = ?rs")
      case True
      with pos have "?q \<noteq> []" by auto
      then obtain m q' where p: "heap_Pop ?q = Inr (m, q')"
        using heap_Pop_length(2) by blast
      then have "length q' = length ?q - 1" by (rule heap_Pop_length(1))
      with True pos have "int (length q') < ?rs" by simp
      with that [of q'] True p show ?thesis by blast
    next
      case False
      with inv have "int (length ?q) < ?rs" by simp
      with that [of ?q] False show ?thesis by blast
    qed
    let ?q2 = "heap_up (q1 @ [?x]) (length q1)"
    have push: "heap_Push ?rs q1 ?x = Inr ?q2"
      using l1 by (simp add: heap_Push_length(1))
    have l2: "length ?q2 = length q1 + 1"
      by (simp add: length_heap_up)
    have "int (length ([] :: expDecaySampleHeap)) + int (length ?q2) \<le> ?rs"
      using l1 l2 by simp
    from rescale_push_length [OF this, of ?f] obtain q3 where
      q3: "rescale_push ?rs ?f ?q2 [] = Inr q3" and l3: "length q3 = length ?q2"
      by auto
    have res: "ExpDecaySample_update t u x s =
        (if Time_After t (t1 s)
         then Inr (s\<lparr>ExpDecaySample.count := ExpDecaySample.count s + 1, t0 := t,
                      t1 := Time_Add t rescaleThreshold, ExpDecaySample.vals := q3\<rparr>)
         else Inr (s\<lparr>ExpDecaySample.count := ExpDecaySample.count s + 1,
                      ExpDecaySample.vals := ?q2\<rparr>))"
      using q1 push q3 by (auto simp: ExpDecaySample_update_def Let_def)
    show ?thesis
      using pos l1 l2 l3 by (auto simp: res)
  qed
qed

lemma ExpDecaySample_Clear_invariant:
  assumes "0 \<le> ExpDecaySample.reservoirSize s"
  shows "ExpDecaySample_Clear now s =
           Inr (s\<lparr>ExpDecaySample.count := 0, t0 := now,
                   t1 := Time_Add now rescaleThreshold, ExpDecaySample.vals := []\<rparr>)"
  using assms by (simp add: ExpDecaySample_Clear_def)

lemma ExpDecaySample_run_invariant:
  assumes "int (length (ExpDecaySample.vals s)) \<le> ExpDecaySample.reservoirSize s"
  shows "(0 < ExpDecaySample.reservoirSize s \<longrightarrow> (\<exists>s'. ExpDecaySample_run s ops = Inr s')) \<and>
         (\<forall>s'. ExpDecaySample_run s ops = Inr s' \<longrightarrow>
            ExpDecaySample.reservoirSize s' = ExpDecaySample.reservoirSize s \<and>
            int (length (ExpDecaySample.vals s')) \<le> ExpDecaySample.reservoirSize s) \<and>
         (\<forall>e. ExpDecaySample_run s ops = Inl e \<longrightarrow> ExpDecaySample.reservoirSize s = 0)"
  using assms
proof (induction ops arbitrary: s)
  case Nil
  then show ?case by simp
next
  case (Cons op ops)
  show ?case
  proof (cases op)
    case (OpUpdate now u x)
    note U = ExpDecaySample_update_invariant [OF Cons.prems, of now u x]
    show ?thesis
    proof (cases "ExpDecaySample_update now u x s")
      case (Inl e)
      with U show ?thesis
        by (simp add: OpUpdate ExpDecaySample_Update_def)
    next
      case (Inr s1)
      with U have s1: "ExpDecaySample.reservoirSize s1 = ExpDecaySample.reservoirSize s"
        "int (length (ExpDecaySample.vals s1)) \<le> ExpDecaySample.reservoirSize s1"
        by simp_all
      from Cons.IH [OF s1(2)] show ?thesis
        by (simp add: OpUpdate ExpDecaySample_Update_def Inr s1(1))
    qed
  next
    case (OpClear now)
    from Cons.prems have nn: "0 \<le> ExpDecaySample.reservoirSize s"
      by (smt (verit) of_nat_0_le_iff)
    let ?s1 = "s\<lparr>ExpDecaySample.count := 0, t0 := now,
                   t1 := Time_Add now rescaleThreshold, ExpDecaySample.vals := []\<rparr>"
    have "int (length (ExpDecaySample.vals ?s1)) \<le> ExpDecaySample.reservoirSize ?s1"
      using nn by simp
    from Cons.IH [OF this] show ?thesis
      by (simp add: OpClear ExpDecaySample_Clear_invariant [OF nn])
  qed
qed

text \<open>
  Claim C3. For a sample made by \<open>NewExpDecaySample\<close> with reservoir capacity
  \<open>rs\<close>, after any sequence of \<open>Update\<close> and \<open>Clear\<close> operations, at any
  times and with any random draws (so also across rescale boundaries), the number of
  retained entries \<open>Size()\<close> is at most \<open>rs\<close>. With a positive capacity every
  such sequence runs to its end; the only panic is that of an \<open>Update\<close> on a sample
  of capacity zero, which pops from the empty heap.
\<close>

theorem ExpDecaySample_never_exceeds_capacity:
  "NewExpDecaySample rs a now1 now2 = Inr s0 \<Longrightarrow>
   (0 < rs \<longrightarrow> (\<exists>s. ExpDecaySample_run s0 ops = Inr s)) \<and>
   (\<forall>s. ExpDecaySample_run s0 ops = Inr s \<longrightarrow> ExpDecaySample_Size s \<le> rs) \<and>
   (\<forall>e. ExpDecaySample_run s0 ops = Inl e \<longrightarrow> rs = 0)"
proof -
  assume new: "NewExpDecaySample rs a now1 now2 = Inr s0"
  then have s0: "ExpDecaySample.reservoirSize s0 = rs" "ExpDecaySample.vals s0 = []" "0 \<le> rs"
    by (auto simp: NewExpDecaySample_def split: if_splits)
  then have "int (length (ExpDecaySample.vals s0)) \<le> ExpDecaySample.reservoirSize s0"
    by simp
  from ExpDecaySample_run_invariant [OF this, of ops] show ?thesis
    by (simp add: s0 ExpDecaySample_Size_def)
qed


theorem ExpDecaySample_never_exceeds_capacity_witness:
  "\<exists>s0. NewExpDecaySample 2 (15 / 1000) 0 0 = Inr s0 \<and>
      (\<exists>s. ExpDecaySample_run s0
              [OpUpdate 1000000000 (1 / 2) 7, OpUpdate 2000000000 (1 / 4) 8,
               OpUpdate 3000000000 (3 / 4) 9, OpUpdate 7200000000000 (1 / 2) 10,
               OpClear 7300000000000, OpUpdate 7400000000000 (1 / 3) 11] = Inr s \<and>
           ExpDecaySample_Size s \<le> 2)"
proof -
  let ?ops = "[OpUpdate 1000000000 (1 / 2) 7, OpUpdate 2000000000 (1 / 4) 8,
               OpUpdate 3000000000 (3 / 4) 9, OpUpdate 7200000000000 (1 / 2) 10,
               OpClear 7300000000000, OpUpdate 7400000000000 (1 / 3) 11]"
  obtain s0 where new: "NewExpDecaySample 2 (15 / 1000) 0 0 = Inr s0"
    by (simp add: NewExpDecaySample_def)
  from ExpDecaySample_never_exceeds_capacity [OF new, of ?ops]
  obtain s where "ExpDecaySample_run s0 ?ops = Inr s" "ExpDecaySample_Size s \<le> 2"
    by auto
  with new show ?thesis by blast
qed

lemma mset_Swap:
  "i < length q \<Longrightarrow> j < length q \<Longrightarrow> mset (expDecaySampleHeap_Swap q i j) = mset q"
  unfolding expDecaySampleHeap_Swap_def by (rule mset_swap)

lemma mset_heap_up: "j < length q \<Longrightarrow> mset (heap_up q j) = mset q"
proof (induction q j rule: heap_up.induct)
  case (1 q j)
  let ?i = "(j - 1) div 2"
  have i: "?i < length q" using "1.prems" by simp
  show ?case
  proof (cases "?i = j \<or> \<not> expDecaySampleHeap_Less q j ?i")
    case True
    then show ?thesis by (subst heap_up.simps) (simp add: Let_def)
  next
    case False
    have "mset (heap_up (expDecaySampleHeap_Swap q ?i j) ?i) = mset (expDecaySampleHeap_Swap q ?i j)"
      using False i by (intro "1.IH") (simp_all add: length_Swap)
    then show ?thesis
      using False i "1.prems" by (subst heap_up.simps) (simp add: Let_def mset_Swap)
  qed
qed

lemma heap_Push_mset:
  "heap_Push cap q x = Inr q' \<Longrightarrow> mset q' = add_mset x (mset q)"
  by (auto simp: heap_Push_def mset_heap_up split: if_splits)

lemma rescale_push_mset:
  "rescale_push cap f xs q = Inr q' \<Longrightarrow>
     mset q' = mset q + image_mset (\<lambda>e. e\<lparr>key := key e * f\<rparr>) (mset xs)"
proof (induction xs arbitrary: q)
  case Nil
  then show ?case by simp
next
  case (Cons x xs)
  then obtain q1 where p: "heap_Push cap q (x\<lparr>key := key x * f\<rparr>) = Inr q1"
    and r: "rescale_push cap f xs q1 = Inr q'"
    by (auto split: sum.splits)
  from Cons.IH [OF r] heap_Push_mset [OF p] show ?case by simp
qed

text \<open>
  What a rescaling \<open>update\<close> retains: the heap \<open>q2\<close> that results from the pop and
  the push holds the new entry with the key \<open>exp(seconds * alpha) / u\<close>, and the
  sample afterwards holds the entries of \<open>q2\<close> with every key multiplied by
  \<open>exp(-alpha * nanoseconds)\<close>.
\<close>

lemma ExpDecaySample_update_rescale_keys:
  assumes "ExpDecaySample_update t u x s = Inr s'" and "Time_After t (t1 s)"
  shows "\<exists>q2. \<lparr>key = exp (Duration_Seconds (Time_Sub t (t0 s)) * ExpDecaySample.alpha s) / u,
                val = x\<rparr> \<in># mset q2 \<and>
              mset (ExpDecaySample.vals s') =
                image_mset (\<lambda>e. e\<lparr>key := key e *
                    exp (- ExpDecaySample.alpha s * real_of_int (Time_Sub t (t0 s)))\<rparr>) (mset q2) \<and>
              t0 s' = t \<and> t1 s' = Time_Add t rescaleThreshold"
proof -
  let ?new = "\<lparr>key = exp (Duration_Seconds (Time_Sub t (t0 s)) * ExpDecaySample.alpha s) / u, val = x\<rparr>"
  let ?f = "exp (- ExpDecaySample.alpha s * real_of_int (Time_Sub t (t0 s)))"
  from assms obtain q1 q2 q3 where
    push: "heap_Push (ExpDecaySample.reservoirSize s) q1 ?new = Inr q2" and
    resc: "rescale_push (ExpDecaySample.reservoirSize s) ?f q2 [] = Inr q3" and
    s': "s' = s\<lparr>ExpDecaySample.count := ExpDecaySample.count s + 1, t0 := t,
                 t1 := Time_Add t rescaleThreshold, ExpDecaySample.vals := q3\<rparr>"
    by (auto simp: ExpDecaySample_update_def Let_def split: sum.splits if_splits prod.splits)
  from heap_Push_mset [OF push] have "?new \<in># mset q2" by simp
  moreover from rescale_push_mset [OF resc]
  have "mset q3 = image_mset (\<lambda>e. e\<lparr>key := key e * ?f\<rparr>) (mset q2)" by simp
  ultimately show ?thesis
    unfolding s' by (intro exI [of _ q2]) simp
qed

lemma heap_up_single: "heap_up [a] 0 = [a]"
  by (subst heap_up.simps) simp

text \<open>
  Claim C2 says that an update which crosses the rescale threshold multiplies every
  retained key by \<open>exp(-alpha * (new_t0 - old_t0))\<close> with the difference in seconds.
  The code converts the \<open>Duration\<close> with \<open>float64\<close>, which is a number of
  nanoseconds, while the key of the same update is computed from \<open>Seconds()\<close>. The
  theorem evaluates \<open>update\<close> on a sample with an empty heap: the inserted key is
  \<open>exp(seconds * alpha) / u\<close>, as the claim says, and the key retained after
  rescaling is that key times \<open>exp(-alpha * nanoseconds)\<close>, which differs from the
  claimed \<open>exp(-alpha * seconds)\<close> multiple whenever \<open>alpha\<close> is not zero.
\<close>

theorem ExpDecaySample_update_rescales_by_nanoseconds:
  "ExpDecaySample.vals s = [] \<Longrightarrow> 0 < ExpDecaySample.reservoirSize s \<Longrightarrow>
   Time_After t (t1 s) \<Longrightarrow> t0 s < t \<Longrightarrow> 0 < u \<Longrightarrow> ExpDecaySample.alpha s \<noteq> 0 \<Longrightarrow>
   (\<exists>k. ExpDecaySample_update t u x s =
          Inr (s\<lparr>ExpDecaySample.count := ExpDecaySample.count s + 1, t0 := t,
                 t1 := Time_Add t rescaleThreshold,
                 ExpDecaySample.vals := [\<lparr>key = k, val = x\<rparr>]\<rparr>) \<and>
        k = exp (Duration_Seconds (Time_Sub t (t0 s)) * ExpDecaySample.alpha s) / u *
            exp (- ExpDecaySample.alpha s * real_of_int (Time_Sub t (t0 s))) \<and>
        k \<noteq> exp (Duration_Seconds (Time_Sub t (t0 s)) * ExpDecaySample.alpha s) / u *
            exp (- ExpDecaySample.alpha s * Duration_Seconds (Time_Sub t (t0 s))))"
proof -
  assume empty: "ExpDecaySample.vals s = []" and pos: "0 < ExpDecaySample.reservoirSize s"
    and after: "Time_After t (t1 s)" and later: "t0 s < t" and u: "0 < u"
    and a: "ExpDecaySample.alpha s \<noteq> 0"
  let ?d = "Time_Sub t (t0 s)"
  let ?pre = "exp (Duration_Seconds ?d * ExpDecaySample.alpha s) / u"
  let ?new = "?pre * exp (- ExpDecaySample.alpha s * real_of_int ?d)"
  have d: "0 < ?d"
    using later by (simp add: Time_Sub_def minDuration_def maxDuration_def)
  have upd: "ExpDecaySample_update t u x s =
          Inr (s\<lparr>ExpDecaySample.count := ExpDecaySample.count s + 1, t0 := t,
                 t1 := Time_Add t rescaleThreshold,
                 ExpDecaySample.vals := [\<lparr>key = ?new, val = x\<rparr>]\<rparr>)"
    using empty pos after
    by (simp add: ExpDecaySample_update_def Let_def heap_Push_def heap_up_single)
  have "real_of_int ?d \<noteq> Duration_Seconds ?d"
    using d by (simp add: Duration_Seconds_def)
  then have "- ExpDecaySample.alpha s * real_of_int ?d \<noteq> - ExpDecaySample.alpha s * Duration_Seconds ?d"
    using a by simp
  then have "exp (- ExpDecaySample.alpha s * real_of_int ?d) \<noteq>
             exp (- ExpDecaySample.alpha s * Duration_Seconds ?d)"
    by (simp only: exp_inj_iff not_False_eq_True)
  moreover have "?pre \<noteq> 0"
    using u by simp
  ultimately have "?new \<noteq> ?pre * exp (- ExpDecaySample.alpha s * Duration_Seconds ?d)"
    by (metis mult_cancel_left)
  with upd show ?thesis by blast
qed

theorem ExpDecaySample_update_rescales_by_nanoseconds_witness:
  "ExpDecaySample_update 3601000000000 (1 / 2) 42
     \<lparr>ExpDecaySample.alpha = 15 / 1000, ExpDecaySample.count = 0,
      ExpDecaySample.reservoirSize = 1, t0 = 0, t1 = 3600000000000,
      ExpDecaySample.vals = []\<rparr> =
   Inr \<lparr>ExpDecaySample.alpha = 15 / 1000, ExpDecaySample.count = 1,
        ExpDecaySample.reservoirSize = 1, t0 = 3601000000000, t1 = 7201000000000,
        ExpDecaySample.vals =
          [\<lparr>key = exp (3601 * (15 / 1000)) / (1 / 2) * exp (- (15 / 1000) * 3601000000000),
            val = 42\<rparr>]\<rparr> \<and>
   exp (3601 * (15 / 1000)) / (1 / 2) * exp (- (15 / 1000) * 3601000000000) \<noteq>
   (exp (3601 * (15 / 1000)) / (1 / 2) * exp (- (15 / 1000) * 3601) :: real)"
proof -
  let ?s = "\<lparr>ExpDecaySample.alpha = 15 / 1000, ExpDecaySample.count = 0,
      ExpDecaySample.reservoirSize = 1, t0 = 0, t1 = 3600000000000,
      ExpDecaySample.vals = []\<rparr>"
  have d: "Time_Sub 3601000000000 (t0 ?s) = 3601000000000"
    by (simp add: Time_Sub_def minDuration_def maxDuration_def)
  have secs: "Duration_Seconds 3601000000000 = 3601"
    by (simp add: Duration_Seconds_def)
  from ExpDecaySample_update_rescales_by_nanoseconds
         [of ?s 3601000000000 "1 / 2" 42]
  obtain k where
    "ExpDecaySample_update 3601000000000 (1 / 2) 42 ?s =
          Inr (?s\<lparr>ExpDecaySample.count := ExpDecaySample.count ?s + 1, t0 := 3601000000000,
                 t1 := Time_Add 3601000000000 rescaleThreshold,
                 ExpDecaySample.vals := [\<lparr>key = k, val = 42\<rparr>]\<rparr>)"
    "k = exp (Duration_Seconds (Time_Sub 3601000000000 (t0 ?s)) * ExpDecaySample.alpha ?s) / (1 / 2) *
            exp (- ExpDecaySample.alpha ?s * real_of_int (Time_Sub 3601000000000 (t0 ?s)))"
    "k \<noteq> exp (Duration_Seconds (Time_Sub 3601000000000 (t0 ?s)) * ExpDecaySample.alpha ?s) / (1 / 2) *
            exp (- ExpDecaySample.alpha ?s * Duration_Seconds (Time_Sub 3601000000000 (t0 ?s)))"
    by (auto simp: Time_After_def)
  then show ?thesis
    unfolding d secs
    by (simp add: Time_Add_def rescaleThreshold_def Hour_def)
qed

subsection \<open>Uniform sample\<close>

lemma UniformSample_capacity_one_keeps_last:
  assumes "UniformSample.reservoirSize s = 1" "length (UniformSample.vals s) \<le> 1"
    and "ops \<noteq> []" "\<forall>(r, x) \<in> set ops. r = 0"
  shows "\<exists>s'. UniformSample_run s ops = Inr s' \<and> UniformSample.vals s' = [snd (last ops)]"
  using assms
proof (induction ops arbitrary: s)
  case Nil
  then show ?case by simp
next
  case (Cons op ops)
  obtain r x where op: "op = (r, x)" by (cases op)
  with Cons.prems have r: "r = 0" by simp
  have "\<exists>s1. UniformSample_Update r s x = Inr s1 \<and> UniformSample.vals s1 = [x] \<and>
          UniformSample.reservoirSize s1 = 1"
  proof (cases "UniformSample.vals s")
    case Nil
    then show ?thesis
      using Cons.prems(1) by (simp add: UniformSample_Update_def Let_def)
  next
    case (Cons y ys)
    with Cons.prems(2) have "UniformSample.vals s = [y]" by simp
    then show ?thesis
      using Cons.prems(1) r by (simp add: UniformSample_Update_def Let_def)
  qed
  then obtain s1 where s1: "UniformSample_Update r s x = Inr s1" "UniformSample.vals s1 = [x]"
    "UniformSample.reservoirSize s1 = 1"
    by blast
  show ?case
  proof (cases "ops = []")
    case True
    then show ?thesis using s1 op by simp
  next
    case False
    moreover have "length (UniformSample.vals s1) \<le> 1" using s1 by simp
    moreover have "\<forall>(r, x) \<in> set ops. r = 0" using Cons.prems(4) by simp
    ultimately obtain s' where "UniformSample_run s1 ops = Inr s'"
      "UniformSample.vals s' = [snd (last ops)]"
      using Cons.IH [OF s1(3)] by blast
    then show ?thesis using s1 op False by simp
  qed
qed

text \<open>
  Claim C1 says that on a full reservoir the new value replaces a slot only with
  probability \<open>C / N\<close>, by a draw from \<open>[0, N)\<close> that replaces only when it falls
  below \<open>C\<close>, so that every observed value is equally likely to be retained. In
  the code, below capacity the value is appended, as the claim says; on a full reservoir
  the draw is from \<open>[0, reservoirSize)\<close> and the slot drawn is always written: for
  every draw that \<open>rand.Intn\<close> can return, and whatever the count, the new value
  replaces a slot. With capacity one the reservoir therefore holds exactly the last
  value after any sequence of updates.
\<close>

theorem UniformSample_Update_full_always_replaces:
  "(int (length (UniformSample.vals s)) < UniformSample.reservoirSize s \<longrightarrow>
      UniformSample_Update r s x =
        Inr (s\<lparr>UniformSample.count := UniformSample.count s + 1,
               UniformSample.vals := UniformSample.vals s @ [x]\<rparr>)) \<and>
   (int (length (UniformSample.vals s)) = UniformSample.reservoirSize s \<and>
    r < length (UniformSample.vals s) \<longrightarrow>
      UniformSample_Update r s x =
        Inr (s\<lparr>UniformSample.count := UniformSample.count s + 1,
               UniformSample.vals := (UniformSample.vals s)[r := x]\<rparr>) \<and>
      x \<in> set ((UniformSample.vals s)[r := x])) \<and>
   (UniformSample.reservoirSize s = 1 \<and> length (UniformSample.vals s) \<le> 1 \<and>
    ops \<noteq> [] \<and> (\<forall>(r, x) \<in> set ops. r = 0) \<longrightarrow>
      (\<exists>s'. UniformSample_run s ops = Inr s' \<and> UniformSample.vals s' = [snd (last ops)]))"
proof (intro conjI impI)
  assume "int (length (UniformSample.vals s)) < UniformSample.reservoirSize s"
  then show "UniformSample_Update r s x =
        Inr (s\<lparr>UniformSample.count := UniformSample.count s + 1,
               UniformSample.vals := UniformSample.vals s @ [x]\<rparr>)"
    by (simp add: UniformSample_Update_def Let_def)
next
  assume full: "int (length (UniformSample.vals s)) = UniformSample.reservoirSize s \<and>
    r < length (UniformSample.vals s)"
  then show "UniformSample_Update r s x =
        Inr (s\<lparr>UniformSample.count := UniformSample.count s + 1,
               UniformSample.vals := (UniformSample.vals s)[r := x]\<rparr>)"
    by (auto simp: UniformSample_Update_def Let_def)
  from full show "x \<in> set ((UniformSample.vals s)[r := x])"
    by (simp add: set_update_memI)
next
  assume "UniformSample.reservoirSize s = 1 \<and> length (UniformSample.vals s) \<le> 1 \<and>
    ops \<noteq> [] \<and> (\<forall>(r, x) \<in> set ops. r = 0)"
  then show "\<exists>s'. UniformSample_run s ops = Inr s' \<and> UniformSample.vals s' = [snd (last ops)]"
    using UniformSample_capacity_one_keeps_last [of s ops] by blast
qed

theorem UniformSample_Update_full_always_replaces_witness:
  "UniformSample_Update 0
     \<lparr>UniformSample.count = 0, UniformSample.reservoirSize = 1, UniformSample.vals = []\<rparr> 10 =
   Inr \<lparr>UniformSample.count = 1, UniformSample.reservoirSize = 1, UniformSample.vals = [10]\<rparr> \<and>
   UniformSample_Update 0
     \<lparr>UniformSample.count = 1, UniformSample.reservoirSize = 1, UniformSample.vals = [10]\<rparr> 20 =
   Inr \<lparr>UniformSample.count = 2, UniformSample.reservoirSize = 1, UniformSample.vals = [20]\<rparr> \<and>
   (\<exists>s'. UniformSample_run
           \<lparr>UniformSample.count = 0, UniformSample.reservoirSize = 1, UniformSample.vals = []\<rparr>
           [(0, 10), (0, 20), (0, 30)] = Inr s' \<and>
         UniformSample.vals s' = [30])"
proof -
  let ?e = "\<lparr>UniformSample.count = 0, UniformSample.reservoirSize = 1, UniformSample.vals = []\<rparr>"
  let ?f = "\<lparr>UniformSample.count = 1, UniformSample.reservoirSize = 1, UniformSample.vals = [10]\<rparr>"
  have a: "UniformSample_Update 0 ?e 10 =
      Inr \<lparr>UniformSample.count = 1, UniformSample.reservoirSize = 1, UniformSample.vals = [10]\<rparr>"
    using UniformSample_Update_full_always_replaces [of ?e 0 10] by simp
  have b: "UniformSample_Update 0 ?f 20 =
      Inr \<lparr>UniformSample.count = 2, UniformSample.reservoirSize = 1, UniformSample.vals = [20]\<rparr>"
    using UniformSample_Update_full_always_replaces [of ?f 0 20] by simp
  let ?ops = "[(0, 10), (0, 20), (0, 30)] :: (nat \<times> int64) list"
  have hyp: "UniformSample.reservoirSize ?e = 1 \<and> length (UniformSample.vals ?e) \<le> 1 \<and>
      ?ops \<noteq> [] \<and> (\<forall>(r, x) \<in> set ?ops. r = 0)"
    by simp
  have lst: "snd (last ?ops) = 30"
    by simp
  from UniformSample_Update_full_always_replaces [of ?e 0 10 ?ops] hyp
  have "\<exists>s'. UniformSample_run ?e ?ops = Inr s' \<and> UniformSample.vals s' = [snd (last ?ops)]"
    by blast
  then have c: "\<exists>s'. UniformSample_run ?e ?ops = Inr s' \<and> UniformSample.vals s' = [30]"
    by (simp only: lst)
  from a b c show ?thesis by blast
qed

end
